theory Spec2Isabelle
  imports Main
begin

section \<open>Values, types and signatures\<close>

text \<open>
  A Python class or protocol object has an identity and a \<^verbatim>\<open>__name__\<close>. Two distinct
  classes may carry the same name, so both are kept; \<^verbatim>\<open>is\<close> and \<^verbatim>\<open>==\<close> on classes are
  equality of the pair.
\<close>

datatype pytype = PyType (tid: nat) (tyname: string)

text \<open>
  The evaluated annotation of a parameter: a class, or an object that has no
  \<^verbatim>\<open>__name__\<close>, such as the union \<^verbatim>\<open>int | None\<close> or \<^verbatim>\<open>None\<close> itself. A parameter without
  annotation has the class \<^verbatim>\<open>inspect._empty\<close>.
\<close>

datatype annot = Class pytype | Nameless nat

text \<open>
  Run-time values. \<open>VCore\<close> is the reference to the state core of the machine instance,
  \<open>VSelf\<close> the reference to the machine instance (the synthetic self). \<open>VObj i c k\<close> is the
  object that a call \<^verbatim>\<open>stateFactory(**k)\<close> of the class \<open>c\<close> returned: \<open>i\<close> is its identity and
  \<open>k\<close> the keyword arguments it was constructed from.
\<close>

datatype val =
    VNone
  | VInt int
  | VStr string
  | VCore
  | VSelf
  | VObj nat pytype "(string \<times> val) list"

datatype error =
    CouldNotFindAutoParam string
  | KeyError string
  | RuntimeError string
  | TypeError string
  | ValueError string
  | IndexError string
  | AttributeError string
  | NoTransition string string
  | ConfigurationError string string

text \<open>
  \<^verbatim>\<open>inspect.Parameter\<close>: name, evaluated annotation and default (\<open>None\<close> is
  \<^verbatim>\<open>Parameter.empty\<close>). A signature is the ordered list of its parameters; all of them are
  positional-or-keyword.
\<close>

record Parameter =
  pname :: string
  annotation :: annot
  pdefault :: "val option"

type_synonym Signature = "Parameter list"

text \<open>A method of an inputs protocol: its \<^verbatim>\<open>__name__\<close> and its signature (with \<^verbatim>\<open>self\<close>).\<close>

record Method =
  methodName :: string
  methodSignature :: Signature

text \<open>The state core: its class and its attributes.\<close>

record StateCore =
  coreType :: pytype
  coreAttrs :: "(string \<times> val) list"

text \<open>\<^verbatim>\<open>getattr(stateCore, parameterName, None)\<close>\<close>

definition getattrOrNone :: "StateCore \<Rightarrow> string \<Rightarrow> val" where
  "getattrOrNone stateCore parameterName =
     (case map_of (coreAttrs stateCore) parameterName of None \<Rightarrow> VNone | Some it \<Rightarrow> it)"

text \<open>
  An output method carrying \<^verbatim>\<open>__automat_handler__ = (input, enter)\<close>: the name of the method,
  the name of the input it answers, the name of the \<^verbatim>\<open>enter\<close> factory when one is given, and
  the names of the states of the \<^verbatim>\<open>Enter\<close> annotations of its return type, in order.
\<close>

record Handler =
  outputMethod :: string
  handledInput :: string
  enterParameter :: "string option"
  enterAnnotations :: "string list"

text \<open>
  A state class as \<^verbatim>\<open>TypicalBuilder.state\<close> leaves it: the class, its
  \<^verbatim>\<open>__persistState__\<close> flag, the signature of its constructor and its handlers in the
  order of \<^verbatim>\<open>dir(stateClass)\<close>.
\<close>

record StateClass =
  stateType :: pytype
  persistState :: bool
  factorySignature :: Signature
  handlers :: "Handler list"

section \<open>Automatic parameters\<close>

text \<open>
  \<^verbatim>\<open>Signature.bind(*args, **kwargs).arguments\<close> of the standard library, for
  positional-or-keyword parameters: positional arguments first, then keywords; a parameter
  left to its default is not among the bound arguments. \<open>quoted\<close> is the \<^verbatim>\<open>repr\<close> of a name
  in the messages.
\<close>

definition quoted :: "string \<Rightarrow> string" where
  "quoted name = [CHR 0x27] @ name @ [CHR 0x27]"

fun signatureBind :: "Signature \<Rightarrow> val list \<Rightarrow> (string \<times> val) list \<Rightarrow> error + (string \<times> val) list" where
  "signatureBind [] [] kw =
     (case kw of [] \<Rightarrow> Inr []
      | (k, v) # rest \<Rightarrow> Inl (TypeError (''got an unexpected keyword argument '' @ quoted k)))"
| "signatureBind [] (a # as) kw = Inl (TypeError ''too many positional arguments'')"
| "signatureBind (p # ps) (a # as) kw =
     (if pname p \<in> fst ` set kw then Inl (TypeError (''multiple values for argument '' @ quoted (pname p)))
      else (case signatureBind ps as kw of
              Inl e \<Rightarrow> Inl e
            | Inr bound \<Rightarrow> Inr ((pname p, a) # bound)))"
| "signatureBind (p # ps) [] kw =
     (case map_of kw (pname p) of
        Some v \<Rightarrow>
          (case signatureBind ps [] (filter (\<lambda>kv. fst kv \<noteq> pname p) kw) of
             Inl e \<Rightarrow> Inl e
           | Inr bound \<Rightarrow> Inr ((pname p, v) # bound))
      | None \<Rightarrow>
          (case pdefault p of
             None \<Rightarrow> Inl (TypeError (''missing a required argument: '' @ quoted (pname p)))
           | Some d \<Rightarrow> signatureBind ps [] kw))"

text \<open>
  \<^verbatim>\<open>_magicValueForParameter\<close>. The five sources are tried in the order of the source text;
  \<^verbatim>\<open>passedParams[parameterName]\<close> raises \<^verbatim>\<open>KeyError\<close> when the caller bound no value, and
  \<^verbatim>\<open>parameterType.__name__\<close> raises \<^verbatim>\<open>AttributeError\<close> for an annotation that has no name.
  The state core and the input protocols are classes, so only a class can be either.
\<close>

definition magicValueForParameter ::
  "string \<Rightarrow> annot \<Rightarrow> Signature option \<Rightarrow> (string \<times> val) list \<Rightarrow> StateCore \<Rightarrow>
   (string \<rightharpoonup> val) \<Rightarrow> pytype list \<Rightarrow> val \<Rightarrow> error + val" where
  "magicValueForParameter parameterName parameterType transitionSignature passedParams
     stateCore existingStateCluster inputProtocols syntheticSelf =
     (if (case transitionSignature of
            None \<Rightarrow> False
          | Some sg \<Rightarrow>
              (case find (\<lambda>p. pname p = parameterName) sg of
                 None \<Rightarrow> False
               | Some transitionParam \<Rightarrow> annotation transitionParam = parameterType))
      then (case map_of passedParams parameterName of
              None \<Rightarrow> Inl (KeyError parameterName)
            | Some v \<Rightarrow> Inr v)
      else if getattrOrNone stateCore parameterName \<noteq> VNone
      then Inr (getattrOrNone stateCore parameterName)
      else (case parameterType of
              Nameless i \<Rightarrow> Inl (AttributeError ''__name__'')
            | Class c \<Rightarrow>
                (case existingStateCluster (tyname c) of
                   Some sibling \<Rightarrow> Inr sibling
                 | None \<Rightarrow>
                     if c = coreType stateCore then Inr VCore
                     else if c \<in> set inputProtocols then Inr syntheticSelf
                     else Inl (CouldNotFindAutoParam
                                 (''Could not find parameter '' @ parameterName @
                                  '' anywhere.'')))))"

text \<open>
  The loop of \<^verbatim>\<open>_buildNewState\<close> over the parameters of the factory: a parameter with a
  default is skipped, the first failure ends the loop.
\<close>

fun resolveParameters ::
  "Signature option \<Rightarrow> (string \<times> val) list \<Rightarrow> StateCore \<Rightarrow> (string \<rightharpoonup> val) \<Rightarrow>
   pytype list \<Rightarrow> val \<Rightarrow> Signature \<Rightarrow> error + (string \<times> val) list" where
  "resolveParameters transitionSignature passedParams stateCore existingStateCluster
     inputProtocols syntheticSelf [] = Inr []"
| "resolveParameters transitionSignature passedParams stateCore existingStateCluster
     inputProtocols syntheticSelf (extraParam # expectedParams) =
     (if pdefault extraParam \<noteq> None
      then resolveParameters transitionSignature passedParams stateCore existingStateCluster
             inputProtocols syntheticSelf expectedParams
      else (case magicValueForParameter (pname extraParam) (annotation extraParam)
                   transitionSignature passedParams stateCore existingStateCluster
                   inputProtocols syntheticSelf of
              Inl e \<Rightarrow> Inl e
            | Inr v \<Rightarrow>
                (case resolveParameters transitionSignature passedParams stateCore
                        existingStateCluster inputProtocols syntheticSelf expectedParams of
                   Inl e \<Rightarrow> Inl e
                 | Inr k \<Rightarrow> Inr ((pname extraParam, v) # k))))"

text \<open>
  \<^verbatim>\<open>_buildNewState\<close>. The call \<^verbatim>\<open>stateFactory(**k)\<close> yields a new object of the state class;
  \<open>ident\<close> is the identity that object gets.
\<close>

definition buildNewState ::
  "val \<Rightarrow> Method option \<Rightarrow> StateClass \<Rightarrow> StateCore \<Rightarrow> val list \<Rightarrow> (string \<times> val) list \<Rightarrow>
   (string \<rightharpoonup> val) \<Rightarrow> pytype list \<Rightarrow> nat \<Rightarrow> error + val" where
  "buildNewState syntheticSelf transitionMethod stateFactory stateCore args kwargs
     existingStateCluster inputProtocols ident =
     (let transitionSignature = map_option methodSignature transitionMethod in
      case (case transitionSignature of
              None \<Rightarrow> Inr []
            | Some sg \<Rightarrow> signatureBind sg (VCore # args) kwargs) of
        Inl e \<Rightarrow> Inl e
      | Inr passedParams \<Rightarrow>
          (case resolveParameters transitionSignature passedParams stateCore
                  existingStateCluster inputProtocols syntheticSelf
                  (factorySignature stateFactory) of
             Inl e \<Rightarrow> Inl e
           | Inr k \<Rightarrow> Inr (VObj ident (stateType stateFactory) k)))"

section \<open>The transition table\<close>

text \<open>Modelled from the spec: the transition table (the collaborator \<^verbatim>\<open>Automaton\<close> of
  \<^verbatim>\<open>automat._core\<close>, of which only the calls are in the sources). It is a mapping from
  (state name, input name) to (next state name, ordered output names), with one catch-all
  registered by \<^verbatim>\<open>unhandledTransition\<close>. An output name is optional, since
  \<^verbatim>\<open>buildClass\<close> registers the catch-all with the outputs \<^verbatim>\<open>[None]\<close>.
\<close>

record Automaton =
  transitions :: "((string \<times> string) \<times> (string \<times> string option list)) list"
  unhandled :: "(string \<times> string option list) option"

text \<open>Modelled from the spec: \<^verbatim>\<open>Automaton()\<close>, the table with no entry and no catch-all.\<close>

definition emptyAutomaton :: Automaton where
  "emptyAutomaton = \<lparr>transitions = [], unhandled = None\<rparr>"

text \<open>Modelled from the spec: \<^verbatim>\<open>unhandledTransition(errorState, outputs)\<close> registers the
  catch-all.
\<close>

definition unhandledTransition :: "Automaton \<Rightarrow> string \<Rightarrow> string option list \<Rightarrow> Automaton" where
  "unhandledTransition au outState outputSymbols = au\<lparr>unhandled := Some (outState, outputSymbols)\<rparr>"

text \<open>Modelled from the spec: \<^verbatim>\<open>addTransition(fromState, input, toState, outputs)\<close>. The table
  is a mapping, and the spec requires that a second binding of the same (state, input) pair
  is rejected at build time with a configuration error; \<^verbatim>\<open>buildClass\<close> has no check of its
  own, so the rejection is this operation's.
\<close>

definition addTransition ::
  "Automaton \<Rightarrow> string \<Rightarrow> string \<Rightarrow> string \<Rightarrow> string option list \<Rightarrow> error + Automaton" where
  "addTransition au inState inputSymbol outState outputSymbols =
     (if (inState, inputSymbol) \<in> fst ` set (transitions au)
      then Inl (ConfigurationError inState inputSymbol)
      else Inr (au\<lparr>transitions :=
                    transitions au @ [((inState, inputSymbol), (outState, outputSymbols))]\<rparr>))"

text \<open>Modelled from the spec: the lookup of the table. An unregistered (state, input) pair
  falls to the catch-all; with no catch-all registered the lookup fails.
\<close>

definition outputForInput ::
  "Automaton \<Rightarrow> string \<Rightarrow> string \<Rightarrow> error + (string \<times> string option list)" where
  "outputForInput au inState inputSymbol =
     (case map_of (transitions au) (inState, inputSymbol) of
        Some r \<Rightarrow> Inr r
      | None \<Rightarrow>
          (case unhandled au of
             None \<Rightarrow> Inl (NoTransition inState inputSymbol)
           | Some r \<Rightarrow> Inr r))"

text \<open>Modelled from the spec: the cursor (the collaborator \<^verbatim>\<open>Transitioner\<close> of
  \<^verbatim>\<open>automat._core\<close>): the table and the name of the current state, \<^verbatim>\<open>_state\<close>.
\<close>

record Transitioner =
  tautomaton :: Automaton
  tstate :: string

text \<open>Modelled from the spec: \<^verbatim>\<open>transition(input)\<close> looks the input up for the current state,
  moves the cursor to the reported next state and returns the outputs (the tracer is left
  out).
\<close>

definition transition :: "Transitioner \<Rightarrow> string \<Rightarrow> error + (string option list \<times> Transitioner)" where
  "transition t inputSymbol =
     (case outputForInput (tautomaton t) (tstate t) inputSymbol of
        Inl e \<Rightarrow> Inl e
      | Inr (outState, outputSymbols) \<Rightarrow> Inr (outputSymbols, t\<lparr>tstate := outState\<rparr>))"

section \<open>Machine instances\<close>

text \<open>
  \<^verbatim>\<open>_TypicalInstance\<close>: the state core, the cursor and the state cluster. \<open>nextIdent\<close> is
  the identity that the next constructed state object gets; it stands for the allocation
  of objects, and only a factory call advances it.
\<close>

record TypicalInstance =
  selfStateCore :: StateCore
  selfTransitioner :: Transitioner
  selfStateCluster :: "string \<rightharpoonup> val"
  nextIdent :: nat

text \<open>
  \<^verbatim>\<open>_updateState\<close>. The instance is returned with the result, also when an exception leaves
  the function: what was mutated before stays mutated. \<^verbatim>\<open>del\<close> of an absent key raises
  \<^verbatim>\<open>KeyError\<close>.
\<close>

definition updateState ::
  "TypicalInstance \<Rightarrow> string option \<Rightarrow> val list \<Rightarrow> (string \<times> val) list \<Rightarrow>
   (string \<rightharpoonup> StateClass) \<Rightarrow> Method option \<Rightarrow> pytype list \<Rightarrow>
   (error + StateClass \<times> val) \<times> TypicalInstance" where
  "updateState self oldState args kwargs stateFactories inputMethod inputProtocols =
     (let currentState = tstate (selfTransitioner self) in
      case stateFactories currentState of
        None \<Rightarrow> (Inl (KeyError currentState), self)
      | Some stateFactory \<Rightarrow>
          (case (case selfStateCluster self currentState of
                   Some stateObject \<Rightarrow> (Inr stateObject, self)
                 | None \<Rightarrow>
                     (case buildNewState VSelf inputMethod stateFactory (selfStateCore self)
                             args kwargs (selfStateCluster self) inputProtocols
                             (nextIdent self) of
                        Inl e \<Rightarrow> (Inl e, self)
                      | Inr stateObject \<Rightarrow>
                          (Inr stateObject,
                           self\<lparr>selfStateCluster :=
                                   (selfStateCluster self)(currentState \<mapsto> stateObject),
                                 nextIdent := Suc (nextIdent self)\<rparr>))) of
             (Inl e, self1) \<Rightarrow> (Inl e, self1)
           | (Inr stateObject, self1) \<Rightarrow>
               (case oldState of
                  None \<Rightarrow> (Inr (stateFactory, stateObject), self1)
                | Some old \<Rightarrow>
                    (case stateFactories old of
                       None \<Rightarrow> (Inl (KeyError old), self1)
                     | Some oldStateFactory \<Rightarrow>
                         if old \<noteq> currentState \<and> \<not> persistState oldStateFactory
                         then (case selfStateCluster self1 old of
                                 None \<Rightarrow> (Inl (KeyError old), self1)
                               | Some evicted \<Rightarrow>
                                   (Inr (stateFactory, stateObject),
                                    self1\<lparr>selfStateCluster :=
                                            (selfStateCluster self1)(old := None)\<rparr>))
                         else (Inr (stateFactory, stateObject), self1)))))"

text \<open>
  The method that \<^verbatim>\<open>_bindableInputMethod\<close> returns. \<open>callMethod obj name a kw\<close> stands for
  \<^verbatim>\<open>getattr(obj, name)(*a, **kw)\<close>, the behaviour of the application's output methods.
  Unpacking \<^verbatim>\<open>[[outputMethodName], tracer]\<close> needs exactly one output.
\<close>

definition bindableInputMethod ::
  "Method \<Rightarrow> (string \<rightharpoonup> StateClass) \<Rightarrow> pytype list \<Rightarrow>
   (val \<Rightarrow> string \<Rightarrow> val list \<Rightarrow> (string \<times> val) list \<Rightarrow> error + val) \<Rightarrow>
   TypicalInstance \<Rightarrow> val list \<Rightarrow> (string \<times> val) list \<Rightarrow> (error + val) \<times> TypicalInstance" where
  "bindableInputMethod inputMethod stateFactories inputProtocols callMethod self a kw =
     (let inputMethodName = methodName inputMethod;
          oldState = tstate (selfTransitioner self) in
      case selfStateCluster self oldState of
        None \<Rightarrow> (Inl (KeyError oldState), self)
      | Some stateObject \<Rightarrow>
          (case transition (selfTransitioner self) inputMethodName of
             Inl e \<Rightarrow> (Inl e, self)
           | Inr (outputs, moved) \<Rightarrow>
               (let self1 = self\<lparr>selfTransitioner := moved\<rparr> in
                case outputs of
                  [outputMethodName] \<Rightarrow>
                    (case updateState self1 (Some oldState) a kw stateFactories
                            (Some inputMethod) inputProtocols of
                       (Inl e, self2) \<Rightarrow> (Inl e, self2)
                     | (Inr updated, self2) \<Rightarrow>
                         (case outputMethodName of
                            None \<Rightarrow>
                              (Inl (RuntimeError (''unhandled: state:'' @ oldState @
                                                  '' input:'' @ inputMethodName)), self2)
                          | Some realMethod \<Rightarrow> (callMethod stateObject realMethod a kw, self2)))
                | _ \<Rightarrow> (Inl (ValueError ''wrong number of values to unpack''), self1))))"

section \<open>Building the machine class\<close>

text \<open>
  An inputs protocol: the protocol object and its methods, that is the attributes
  \<^verbatim>\<open>dir(protocol)\<close> lists outside \<^verbatim>\<open>METADATA_DETRITUS\<close>.
\<close>

record Protocol =
  protocolType :: pytype
  protocolMethods :: "Method list"

text \<open>\<^verbatim>\<open>TypicalBuilder\<close>; the common methods take no part in transitions and are left out.\<close>

record TypicalBuilder =
  stateProtocol :: Protocol
  privateProtocols :: "Protocol list"
  stateClasses :: "StateClass list"
  built :: bool
  errorState :: StateClass

text \<open>\<^verbatim>\<open>_TypicalClass\<close>; \<open>boundInputs\<close> is the namespace of input methods of the synthetic type.\<close>

record TypicalClass =
  initialState :: StateClass
  classAutomaton :: Automaton
  boundInputs :: "(string \<times> Method) list"
  classStateFactories :: "string \<rightharpoonup> StateClass"
  classInputProtocols :: "pytype list"

text \<open>
  \<^verbatim>\<open>_stateInputs\<close>: the next state is the \<^verbatim>\<open>enter\<close> factory, or the state class itself, unless
  an \<^verbatim>\<open>Enter\<close> annotation names another one (the last annotation stays).
\<close>

definition stateInputs :: "StateClass \<Rightarrow> (string \<times> string \<times> string) list" where
  "stateInputs stateClass =
     map (\<lambda>h. (outputMethod h, handledInput h,
               foldl (\<lambda>newStateFactory enterAnnotation. enterAnnotation)
                 (case enterParameter h of
                    Some enter \<Rightarrow> enter
                  | None \<Rightarrow> tyname (stateType stateClass))
                 (enterAnnotations h)))
       (handlers stateClass)"

text \<open>The three nested loops of \<^verbatim>\<open>buildClass\<close>, innermost first.\<close>

fun addHandlers ::
  "string list \<Rightarrow> string \<Rightarrow> (string \<times> string \<times> string) list \<Rightarrow> Automaton \<Rightarrow> error + Automaton" where
  "addHandlers possibleInputs stateName [] au = Inr au"
| "addHandlers possibleInputs stateName ((outputName, inputName, newStateName) # rest) au =
     (if inputName \<in> set possibleInputs
      then (case addTransition au stateName inputName newStateName [Some outputName] of
              Inl e \<Rightarrow> Inl e
            | Inr au' \<Rightarrow> addHandlers possibleInputs stateName rest au')
      else addHandlers possibleInputs stateName rest au)"

fun addStates ::
  "string list \<Rightarrow> StateClass list \<Rightarrow> (string \<rightharpoonup> StateClass) \<Rightarrow> Automaton \<Rightarrow>
   error + (string \<rightharpoonup> StateClass) \<times> Automaton" where
  "addStates possibleInputs [] stateFactories au = Inr (stateFactories, au)"
| "addStates possibleInputs (stateClass # rest) stateFactories au =
     (let stateName = tyname (stateType stateClass) in
      case addHandlers possibleInputs stateName (stateInputs stateClass) au of
        Inl e \<Rightarrow> Inl e
      | Inr au' \<Rightarrow>
          addStates possibleInputs rest (stateFactories(stateName \<mapsto> stateClass)) au')"

fun addProtocols ::
  "StateClass list \<Rightarrow> Protocol list \<Rightarrow> (string \<times> Method) list \<Rightarrow> (string \<rightharpoonup> StateClass) \<Rightarrow>
   Automaton \<Rightarrow> error + (string \<times> Method) list \<times> (string \<rightharpoonup> StateClass) \<times> Automaton" where
  "addProtocols allStates [] ns stateFactories au = Inr (ns, stateFactories, au)"
| "addProtocols allStates (eachStateProtocol # rest) ns stateFactories au =
     (let possibleInputs = map methodName (protocolMethods eachStateProtocol) in
      case addStates possibleInputs allStates stateFactories au of
        Inl e \<Rightarrow> Inl e
      | Inr (stateFactories', au') \<Rightarrow>
          addProtocols allStates rest
            (map (\<lambda>m. (methodName m, m)) (protocolMethods eachStateProtocol) @ ns)
            stateFactories' au')"

text \<open>
  \<^verbatim>\<open>TypicalBuilder.buildClass\<close>. The builder is returned too: \<^verbatim>\<open>_built\<close> is set before
  anything can fail. In \<open>boundInputs\<close> a later binding of a name stands first, as a later
  assignment to \<^verbatim>\<open>ns\<close> replaces an earlier one.
\<close>

definition buildClass :: "TypicalBuilder \<Rightarrow> (error + TypicalClass) \<times> TypicalBuilder" where
  "buildClass self =
     (if built self
      then (Inl (RuntimeError ''You can only build once, after that use the class''), self)
      else
        (let self' = self\<lparr>built := True\<rparr>;
             automaton = unhandledTransition emptyAutomaton
                           (tyname (stateType (errorState self))) [None];
             protocols = stateProtocol self # privateProtocols self;
             allProtocols = map protocolType protocols in
         case addProtocols (stateClasses self @ [errorState self]) protocols [] Map.empty
                automaton of
           Inl e \<Rightarrow> (Inl e, self')
         | Inr (ns, stateFactories, automaton') \<Rightarrow>
             (case stateClasses self of
                [] \<Rightarrow> (Inl (IndexError ''list index out of range''), self')
              | first # others \<Rightarrow>
                  (Inr \<lparr>initialState = first, classAutomaton = automaton',
                        boundInputs = ns, classStateFactories = stateFactories,
                        classInputProtocols = allProtocols\<rparr>, self'))))"

text \<open>
  \<^verbatim>\<open>_TypicalClass.__call__\<close>; \<open>core\<close> is what \<^verbatim>\<open>_buildCore(*initArgs, **initKwargs)\<close>
  returned. When the initial state cannot be built the exception leaves the call and no
  instance is returned.
\<close>

definition instantiate :: "TypicalClass \<Rightarrow> StateCore \<Rightarrow> error + TypicalInstance" where
  "instantiate cls core =
     (let result = \<lparr>selfStateCore = core,
                    selfTransitioner = \<lparr>tautomaton = classAutomaton cls,
                                        tstate = tyname (stateType (initialState cls))\<rparr>,
                    selfStateCluster = Map.empty,
                    nextIdent = 0\<rparr> in
      case updateState result None [] [] (classStateFactories cls) None
             (classInputProtocols cls) of
        (Inl e, failed) \<Rightarrow> Inl e
      | (Inr initial, ready) \<Rightarrow> Inr ready)"

section \<open>Derived notions used in the statements\<close>

text \<open>
  Rule (1) applies: the signature of the triggering input has a parameter of that name whose
  annotation equals the declared type.
\<close>

definition transitionSupplies :: "Signature option \<Rightarrow> string \<Rightarrow> annot \<Rightarrow> bool" where
  "transitionSupplies transitionSignature parameterName parameterType =
     (case transitionSignature of
        None \<Rightarrow> False
      | Some sg \<Rightarrow>
          (case find (\<lambda>p. pname p = parameterName) sg of
             None \<Rightarrow> False
           | Some transitionParam \<Rightarrow> annotation transitionParam = parameterType))"

text \<open>The message of \<^verbatim>\<open>CouldNotFindAutoParam\<close> for a parameter.\<close>

definition couldNotFind :: "string \<Rightarrow> error" where
  "couldNotFind parameterName =
     CouldNotFindAutoParam (''Could not find parameter '' @ parameterName @ '' anywhere.'')"

text \<open>The class of a state object.\<close>

fun classOf :: "val \<Rightarrow> pytype option" where
  "classOf (VObj i c k) = Some c"
| "classOf v = None"

text \<open>
  A caller invoking inputs one after another on the same instance, whatever each call
  returns or raises. A call is the input method with its positional and keyword arguments.
\<close>

fun runInputs ::
  "(string \<rightharpoonup> StateClass) \<Rightarrow> pytype list \<Rightarrow>
   (val \<Rightarrow> string \<Rightarrow> val list \<Rightarrow> (string \<times> val) list \<Rightarrow> error + val) \<Rightarrow>
   (Method \<times> val list \<times> (string \<times> val) list) list \<Rightarrow> TypicalInstance \<Rightarrow> TypicalInstance" where
  "runInputs stateFactories inputProtocols callMethod [] self = self"
| "runInputs stateFactories inputProtocols callMethod ((inputMethod, a, kw) # calls) self =
     runInputs stateFactories inputProtocols callMethod calls
       (snd (bindableInputMethod inputMethod stateFactories inputProtocols callMethod self a kw))"

section \<open>A machine with the states Idle, Active and Done\<close>

text \<open>
  \<open>Idle\<close> is persistent and answers \<open>start\<close> by entering \<open>Active\<close>. \<open>Active\<close> is not
  persistent, is constructed from the state core, answers \<open>stop\<close> by entering \<open>Idle\<close> and
  \<open>finish\<close> by entering \<open>Done\<close>. \<open>Done\<close> is constructed from the \<open>Active\<close> object. The error
  state is the default \<^verbatim>\<open>ErrorState\<close>.
\<close>

definition tyErrorState :: pytype where "tyErrorState = PyType 0 ''ErrorState''"
definition tyIdle :: pytype where "tyIdle = PyType 1 ''Idle''"
definition tyActive :: pytype where "tyActive = PyType 2 ''Active''"
definition tyDone :: pytype where "tyDone = PyType 3 ''Done''"
definition tyCore :: pytype where "tyCore = PyType 4 ''Core''"
definition tyInputs :: pytype where "tyInputs = PyType 5 ''Inputs''"
definition tyEmpty :: pytype where "tyEmpty = PyType 6 ''_empty''"
definition tyInt :: pytype where "tyInt = PyType 7 ''int''"

definition selfParam :: Parameter where
  "selfParam = \<lparr>pname = ''self'', annotation = Class tyEmpty, pdefault = None\<rparr>"

definition exStart :: Method where
  "exStart = \<lparr>methodName = ''start'', methodSignature = [selfParam]\<rparr>"

definition exStop :: Method where
  "exStop = \<lparr>methodName = ''stop'', methodSignature = [selfParam]\<rparr>"

definition exFinish :: Method where
  "exFinish = \<lparr>methodName = ''finish'', methodSignature = [selfParam]\<rparr>"

definition exErrorState :: StateClass where
  "exErrorState = \<lparr>stateType = tyErrorState, persistState = False, factorySignature = [],
                    handlers = []\<rparr>"

definition exIdle :: StateClass where
  "exIdle = \<lparr>stateType = tyIdle, persistState = True, factorySignature = [],
              handlers = [\<lparr>outputMethod = ''begin'', handledInput = ''start'',
                           enterParameter = Some ''Active'', enterAnnotations = []\<rparr>]\<rparr>"

definition exActive :: StateClass where
  "exActive = \<lparr>stateType = tyActive, persistState = False,
                factorySignature = [\<lparr>pname = ''core'', annotation = Class tyCore, pdefault = None\<rparr>],
                handlers = [\<lparr>outputMethod = ''complete'', handledInput = ''finish'',
                             enterParameter = Some ''Done'', enterAnnotations = []\<rparr>,
                            \<lparr>outputMethod = ''halt'', handledInput = ''stop'',
                             enterParameter = Some ''Idle'', enterAnnotations = []\<rparr>]\<rparr>"

definition exDone :: StateClass where
  "exDone = \<lparr>stateType = tyDone, persistState = True,
              factorySignature = [\<lparr>pname = ''active'', annotation = Class tyActive, pdefault = None\<rparr>],
              handlers = []\<rparr>"

definition exBuilder :: TypicalBuilder where
  "exBuilder = \<lparr>stateProtocol = \<lparr>protocolType = tyInputs,
                                    protocolMethods = [exFinish, exStart, exStop]\<rparr>,
                 privateProtocols = [], stateClasses = [exIdle, exActive, exDone],
                 built = False, errorState = exErrorState\<rparr>"

definition exCore :: StateCore where
  "exCore = \<lparr>coreType = tyCore, coreAttrs = [(''count'', VInt 0)]\<rparr>"

text \<open>The state factories and the table that \<open>buildClass exBuilder\<close> produces.\<close>

definition exFactories :: "string \<rightharpoonup> StateClass" where
  "exFactories = [''Idle'' \<mapsto> exIdle, ''Active'' \<mapsto> exActive, ''Done'' \<mapsto> exDone,
                  ''ErrorState'' \<mapsto> exErrorState]"

definition exAutomaton :: Automaton where
  "exAutomaton = \<lparr>transitions = [((''Idle'', ''start''), (''Active'', [Some ''begin''])),
                                 ((''Active'', ''finish''), (''Done'', [Some ''complete''])),
                                 ((''Active'', ''stop''), (''Idle'', [Some ''halt'']))],
                   unhandled = Some (''ErrorState'', [None])\<rparr>"

text \<open>
  The output methods of the example: a method that its class defines returns the name of
  the class and of the method, any other attribute is missing.
\<close>

definition exCall :: "val \<Rightarrow> string \<Rightarrow> val list \<Rightarrow> (string \<times> val) list \<Rightarrow> error + val" where
  "exCall obj name a kw =
     (case classOf obj of
        None \<Rightarrow> Inl (AttributeError name)
      | Some c \<Rightarrow>
          if (tyname c, name) \<in> set [(''Idle'', ''begin''), (''Active'', ''complete''),
                                      (''Active'', ''halt'')]
          then Inr (VStr (tyname c @ ''.'' @ name))
          else Inl (AttributeError name))"

definition idleObject :: val where "idleObject = VObj 0 tyIdle []"

definition activeObject :: "nat \<Rightarrow> val" where
  "activeObject i = VObj i tyActive [(''core'', VCore)]"

definition exInstance :: "string \<Rightarrow> (string \<rightharpoonup> val) \<Rightarrow> nat \<Rightarrow> TypicalInstance" where
  "exInstance current cluster n =
     \<lparr>selfStateCore = exCore,
      selfTransitioner = \<lparr>tautomaton = exAutomaton, tstate = current\<rparr>,
      selfStateCluster = cluster, nextIdent = n\<rparr>"

text \<open>
  \<open>Needy\<close> is a state whose constructor asks for a count and for the \<open>Active\<close> object.
\<close>

definition exNeedy :: StateClass where
  "exNeedy = \<lparr>stateType = PyType 8 ''Needy'', persistState = True,
              factorySignature = [\<lparr>pname = ''count'', annotation = Class tyInt, pdefault = None\<rparr>,
                                  \<lparr>pname = ''active'', annotation = Class tyActive, pdefault = None\<rparr>],
              handlers = []\<rparr>"

text \<open>
  A state core with an attribute whose value is \<^verbatim>\<open>None\<close>, a class that shares the name of
  the state class \<open>Idle\<close> without being it, and the machine class of the example.
\<close>

definition exCoreLabelled :: StateCore where
  "exCoreLabelled = \<lparr>coreType = tyCore, coreAttrs = [(''count'', VInt 0), (''label'', VNone)]\<rparr>"

definition tyOtherIdle :: pytype where "tyOtherIdle = PyType 9 ''Idle''"

definition exClass :: TypicalClass where
  "exClass = \<lparr>initialState = exIdle, classAutomaton = exAutomaton,
               boundInputs = [(''finish'', exFinish), (''start'', exStart), (''stop'', exStop)],
               classStateFactories = exFactories, classInputProtocols = [tyInputs]\<rparr>"

text \<open>
  The five rules as the claim words them, as optional candidates in the order of the claim,
  and the choice of the first rule that succeeds. Rule (3) asks for a live state object
  whose class is the declared type.
\<close>

definition candidatesAsStated ::
  "string \<Rightarrow> annot \<Rightarrow> Signature option \<Rightarrow> (string \<times> val) list \<Rightarrow> StateCore \<Rightarrow>
   (string \<rightharpoonup> val) \<Rightarrow> pytype list \<Rightarrow> val \<Rightarrow> val option list" where
  "candidatesAsStated n ty sg passed core cluster protos syntheticSelf =
     [if transitionSupplies sg n ty then map_of passed n else None,
      if getattrOrNone core n \<noteq> VNone then Some (getattrOrNone core n) else None,
      (case ty of
         Nameless i \<Rightarrow> None
       | Class c \<Rightarrow>
           (case cluster (tyname c) of
              Some sibling \<Rightarrow> if classOf sibling = Some c then Some sibling else None
            | None \<Rightarrow> None)),
      if ty = Class (coreType core) then Some VCore else None,
      if ty \<in> Class ` set protos then Some syntheticSelf else None]"

fun firstSuccess :: "val option list \<Rightarrow> string \<Rightarrow> error + val" where
  "firstSuccess [] n = Inl (couldNotFind n)"
| "firstSuccess (Some v # rules) n = Inr v"
| "firstSuccess (None # rules) n = firstSuccess rules n"

text \<open>
  \<open>Visitor\<close> is a state whose constructor asks for an object of the other class named
  \<open>Idle\<close>; \<open>Labelled\<close> is a state whose constructor parameter is annotated with a union,
  which has no name; \<open>exStartDefault\<close> is an input \<open>start\<close> whose count has a default.
\<close>

definition exVisitor :: StateClass where
  "exVisitor = \<lparr>stateType = PyType 11 ''Visitor'', persistState = True,
                 factorySignature = [\<lparr>pname = ''other'', annotation = Class tyOtherIdle,
                                      pdefault = None\<rparr>],
                 handlers = []\<rparr>"

definition exLabelled :: StateClass where
  "exLabelled = \<lparr>stateType = PyType 12 ''Labelled'', persistState = True,
                  factorySignature = [\<lparr>pname = ''label'', annotation = Nameless 0,
                                       pdefault = None\<rparr>],
                  handlers = []\<rparr>"

definition exStartDefault :: Method where
  "exStartDefault = \<lparr>methodName = ''start'',
                      methodSignature = [selfParam,
                                         \<lparr>pname = ''count'', annotation = Class tyInt,
                                          pdefault = Some (VInt 3)\<rparr>]\<rparr>"

text \<open>
  An input \<open>start\<close> that takes a count, and a state constructed from a count and from a step
  that has a default.
\<close>

definition exStartCount :: Method where
  "exStartCount = \<lparr>methodName = ''start'',
                    methodSignature = [selfParam,
                                       \<lparr>pname = ''count'', annotation = Class tyInt, pdefault = None\<rparr>]\<rparr>"

definition exCounting :: StateClass where
  "exCounting = \<lparr>stateType = PyType 10 ''Counting'', persistState = True,
                  factorySignature = [\<lparr>pname = ''count'', annotation = Class tyInt, pdefault = None\<rparr>,
                                      \<lparr>pname = ''step'', annotation = Class tyInt,
                                       pdefault = Some (VInt 1)\<rparr>],
                  handlers = []\<rparr>"

text \<open>
  The (state, input) pairs that the output methods of the state declarations bind, one per
  handler, and the names of the inputs of the protocols.
\<close>

definition classBindings :: "StateClass \<Rightarrow> (string \<times> string) list" where
  "classBindings c = map (\<lambda>h. (tyname (stateType c), handledInput h)) (handlers c)"

definition bindings :: "TypicalBuilder \<Rightarrow> (string \<times> string) list" where
  "bindings b = concat (map classBindings (stateClasses b @ [errorState b]))"

definition inputNames :: "TypicalBuilder \<Rightarrow> string list" where
  "inputNames b =
     concat (map (\<lambda>p. map methodName (protocolMethods p)) (stateProtocol b # privateProtocols b))"

text \<open>
  A builder whose state \<open>Idle\<close> has two output methods, \<open>begin\<close> and \<open>launch\<close>, that both
  answer \<open>start\<close>.
\<close>

definition exAmbiguousBuilder :: TypicalBuilder where
  "exAmbiguousBuilder =
     exBuilder\<lparr>stateClasses :=
       [exIdle\<lparr>handlers := [\<lparr>outputMethod = ''begin'', handledInput = ''start'',
                                enterParameter = Some ''Active'', enterAnnotations = []\<rparr>,
                               \<lparr>outputMethod = ''launch'', handledInput = ''start'',
                                enterParameter = Some ''Done'', enterAnnotations = []\<rparr>]\<rparr>,
        exActive, exDone]\<rparr>"

text \<open>The (state, input) pairs registered in the table, in the order of registration.\<close>

definition keys :: "Automaton \<Rightarrow> (string \<times> string) list" where
  "keys au = map fst (transitions au)"

text \<open>
  The cluster invariant: the current state has an entry, and no other state that is not
  persistent has one.
\<close>

definition clusterInvariant :: "(string \<rightharpoonup> StateClass) \<Rightarrow> TypicalInstance \<Rightarrow> bool" where
  "clusterInvariant sf self =
     (selfStateCluster self (tstate (selfTransitioner self)) \<noteq> None \<and>
      (\<forall>s \<in> dom (selfStateCluster self).
         s \<noteq> tstate (selfTransitioner self) \<longrightarrow>
         (case sf s of None \<Rightarrow> True | Some c \<Rightarrow> persistState c)))"

section \<open>Resolution of constructor parameters\<close>

text \<open>The resolver as a chain of the five sources, with rule (1) named.\<close>

lemma magic_cases:
  "magicValueForParameter n ty sg passed core cluster protos self =
     (if transitionSupplies sg n ty
      then (case map_of passed n of None \<Rightarrow> Inl (KeyError n) | Some v \<Rightarrow> Inr v)
      else if getattrOrNone core n \<noteq> VNone then Inr (getattrOrNone core n)
      else (case ty of
              Nameless i \<Rightarrow> Inl (AttributeError ''__name__'')
            | Class c \<Rightarrow>
                (case cluster (tyname c) of
                   Some sibling \<Rightarrow> Inr sibling
                 | None \<Rightarrow>
                     if c = coreType core then Inr VCore
                     else if c \<in> set protos then Inr self
                     else Inl (couldNotFind n))))"
  by (simp add: magicValueForParameter_def transitionSupplies_def couldNotFind_def
      split: option.splits annot.splits)

lemma resolve_append:
  "resolveParameters sg passed core cluster protos self (pre @ rest) =
     (case resolveParameters sg passed core cluster protos self pre of
        Inl e \<Rightarrow> Inl e
      | Inr k \<Rightarrow>
          (case resolveParameters sg passed core cluster protos self rest of
             Inl e \<Rightarrow> Inl e
           | Inr k' \<Rightarrow> Inr (k @ k')))"
  by (induction pre) (auto split: sum.splits)

lemma resolve_member_fails:
  assumes "p \<in> set ps" and "pdefault p = None"
    and "magicValueForParameter (pname p) (annotation p) sg passed core cluster protos self = Inl e"
  shows "\<exists>e'. resolveParameters sg passed core cluster protos self ps = Inl e'"
  using assms by (induction ps) (auto split: sum.splits)

text \<open>
  What the resolver does achieve: a constructor parameter without default whose declared
  type is a class, under whose name the cluster holds nothing, and to which no other rule
  applies makes the resolver raise \<^verbatim>\<open>CouldNotFindAutoParam\<close> with the name of the parameter,
  and \<^verbatim>\<open>_buildNewState\<close> returns no object.
\<close>

lemma unresolved_class_parameter_fails:
  assumes "pdefault p = None"
    and "\<not> transitionSupplies (map_option methodSignature transitionMethod) (pname p) (annotation p)"
    and "getattrOrNone core (pname p) = VNone"
    and "annotation p = Class c"
    and "cluster (tyname c) = None"
    and "c \<noteq> coreType core"
    and "c \<notin> set protos"
    and "p \<in> set (factorySignature stateFactory)"
  shows "magicValueForParameter (pname p) (annotation p)
           (map_option methodSignature transitionMethod) passed core cluster protos self
         = Inl (couldNotFind (pname p))
       \<and> (\<exists>e. buildNewState self transitionMethod stateFactory core args kwargs cluster
                  protos ident = Inl e)
       \<and> (\<forall>pre post bound k.
             factorySignature stateFactory = pre @ p # post \<and>
             (case map_option methodSignature transitionMethod of
                None \<Rightarrow> Inr []
              | Some sg \<Rightarrow> signatureBind sg (VCore # args) kwargs) = Inr bound \<and>
             resolveParameters (map_option methodSignature transitionMethod) bound core
               cluster protos self pre = Inr k
             \<longrightarrow> buildNewState self transitionMethod stateFactory core args kwargs cluster
                   protos ident = Inl (couldNotFind (pname p)))"
proof -
  have named: "magicValueForParameter (pname p) (annotation p)
                 (map_option methodSignature transitionMethod) q core cluster protos self
               = Inl (couldNotFind (pname p))" for q
    using assms(2-7) by (simp add: magic_cases)
  have fails: "\<exists>e. buildNewState self transitionMethod stateFactory core args kwargs cluster
                  protos ident = Inl e"
  proof (cases "case map_option methodSignature transitionMethod of
                  None \<Rightarrow> Inr []
                | Some sg \<Rightarrow> signatureBind sg (VCore # args) kwargs")
    case (Inl e)
    then show ?thesis by (simp add: buildNewState_def)
  next
    case (Inr bound)
    from resolve_member_fails [OF assms(8) assms(1) named]
    obtain e' where "resolveParameters (map_option methodSignature transitionMethod) bound core
                       cluster protos self (factorySignature stateFactory) = Inl e'"
      by blast
    with Inr show ?thesis by (simp add: buildNewState_def)
  qed
  have first: "buildNewState self transitionMethod stateFactory core args kwargs cluster
                 protos ident = Inl (couldNotFind (pname p))"
    if "factorySignature stateFactory = pre @ p # post"
      and "(case map_option methodSignature transitionMethod of
              None \<Rightarrow> Inr []
            | Some sg \<Rightarrow> signatureBind sg (VCore # args) kwargs) = Inr bound"
      and "resolveParameters (map_option methodSignature transitionMethod) bound core
             cluster protos self pre = Inr k"
    for pre post bound k
    using that assms(1) named [of bound]
    by (simp add: buildNewState_def resolve_append)
  from named fails first show ?thesis by blast
qed

text \<open>
  C8 fails on the code at two inputs; at both, none of the five rules of the claim applies
  to the parameter. For \<open>label\<close>, annotated with a union, \<^verbatim>\<open>parameterType.__name__\<close> raises
  \<^verbatim>\<open>AttributeError\<close>, which does not name the parameter, before
  \<^verbatim>\<open>CouldNotFindAutoParam\<close> is reached. For \<open>other\<close>, whose declared type is a class named
  \<open>Idle\<close> that is not the state class, nothing fails: the object of the state \<open>Idle\<close>, of
  another class, is passed to the factory.
\<close>

theorem unresolved_parameter_failing_inputs:
  "candidatesAsStated ''label'' (Nameless 0) (Some (methodSignature exStart))
     [(''self'', VCore)] exCore [''Idle'' \<mapsto> idleObject] [tyInputs] VSelf
     = [None, None, None, None, None]
   \<and> buildNewState VSelf (Some exStart) exLabelled exCore [] [] [''Idle'' \<mapsto> idleObject]
        [tyInputs] 1 = Inl (AttributeError ''__name__'')
   \<and> AttributeError ''__name__'' \<noteq> couldNotFind ''label''
   \<and> candidatesAsStated ''other'' (Class tyOtherIdle) (Some (methodSignature exStart))
        [(''self'', VCore)] exCore [''Idle'' \<mapsto> idleObject] [tyInputs] VSelf
        = [None, None, None, None, None]
   \<and> buildNewState VSelf (Some exStart) exVisitor exCore [] [] [''Idle'' \<mapsto> idleObject]
        [tyInputs] 1 = Inr (VObj 1 (stateType exVisitor) [(''other'', idleObject)])
   \<and> classOf idleObject = Some tyIdle \<and> tyIdle \<noteq> tyOtherIdle"
proof -
  have a: "candidatesAsStated ''label'' (Nameless 0) (Some (methodSignature exStart))
             [(''self'', VCore)] exCore [''Idle'' \<mapsto> idleObject] [tyInputs] VSelf
           = [None, None, None, None, None]"
    by (auto simp: candidatesAsStated_def transitionSupplies_def exStart_def selfParam_def
        getattrOrNone_def exCore_def)
  have b: "buildNewState VSelf (Some exStart) exLabelled exCore [] [] [''Idle'' \<mapsto> idleObject]
             [tyInputs] 1 = Inl (AttributeError ''__name__'')"
    by (simp add: buildNewState_def exStart_def selfParam_def exLabelled_def
        magicValueForParameter_def getattrOrNone_def exCore_def)
  have c: "AttributeError ''__name__'' \<noteq> couldNotFind ''label''"
    by (simp add: couldNotFind_def)
  have d: "candidatesAsStated ''other'' (Class tyOtherIdle) (Some (methodSignature exStart))
             [(''self'', VCore)] exCore [''Idle'' \<mapsto> idleObject] [tyInputs] VSelf
           = [None, None, None, None, None]"
    by (auto simp: candidatesAsStated_def transitionSupplies_def exStart_def selfParam_def
        getattrOrNone_def exCore_def tyOtherIdle_def idleObject_def tyIdle_def tyCore_def
        tyInputs_def)
  have e: "buildNewState VSelf (Some exStart) exVisitor exCore [] [] [''Idle'' \<mapsto> idleObject]
             [tyInputs] 1 = Inr (VObj 1 (stateType exVisitor) [(''other'', idleObject)])"
    by (simp add: buildNewState_def exStart_def selfParam_def exVisitor_def
        magicValueForParameter_def getattrOrNone_def exCore_def tyOtherIdle_def)
  have f: "classOf idleObject = Some tyIdle" and g: "tyIdle \<noteq> tyOtherIdle"
    by (simp_all add: idleObject_def tyIdle_def tyOtherIdle_def)
  show ?thesis
    by (intro conjI) (fact a b c d e f g)+
qed

text \<open>
  C9: in the state-core-attribute rule the match is by the name of the parameter alone. When
  rule (1) does not apply, an attribute of that name with a value other than \<^verbatim>\<open>None\<close> is
  the result whatever the declared type \<open>ty\<close> of the parameter is; an attribute that is
  missing or whose value is \<^verbatim>\<open>None\<close> is passed over, and the result is that of the
  sibling-state, state-core-type and self-reference rules, which begin by reading the name
  of the declared type.
\<close>

theorem core_attribute_matched_by_name_only:
  assumes "\<not> transitionSupplies sg n ty"
  shows "(\<forall>v. map_of (coreAttrs core) n = Some v \<and> v \<noteq> VNone \<longrightarrow>
            magicValueForParameter n ty sg passed core cluster protos self = Inr v)
       \<and> (map_of (coreAttrs core) n = None \<or> map_of (coreAttrs core) n = Some VNone \<longrightarrow>
            magicValueForParameter n ty sg passed core cluster protos self =
              (case ty of
                 Nameless i \<Rightarrow> Inl (AttributeError ''__name__'')
               | Class c \<Rightarrow>
                   (case cluster (tyname c) of
                      Some sibling \<Rightarrow> Inr sibling
                    | None \<Rightarrow>
                        if c = coreType core then Inr VCore
                        else if c \<in> set protos then Inr self
                        else Inl (couldNotFind n))))"
  using assms by (auto simp: magic_cases getattrOrNone_def)

theorem core_attribute_matched_by_name_only_witness:
  "\<not> transitionSupplies None ''count'' (Class tyActive)
   \<and> map_of (coreAttrs exCoreLabelled) ''count'' = Some (VInt 0)
   \<and> magicValueForParameter ''count'' (Class tyActive) None [] exCoreLabelled Map.empty [tyInputs] VSelf
       = Inr (VInt 0)
   \<and> \<not> transitionSupplies None ''label'' (Class tyInputs)
   \<and> map_of (coreAttrs exCoreLabelled) ''label'' = Some VNone
   \<and> magicValueForParameter ''label'' (Class tyInputs) None [] exCoreLabelled Map.empty [tyInputs] VSelf
       = Inr VSelf"
proof -
  have h1: "\<not> transitionSupplies None ''count'' (Class tyActive)"
    and h2: "\<not> transitionSupplies None ''label'' (Class tyInputs)"
    by (simp_all add: transitionSupplies_def)
  have a1: "map_of (coreAttrs exCoreLabelled) ''count'' = Some (VInt 0)"
    and a2: "map_of (coreAttrs exCoreLabelled) ''label'' = Some VNone"
    by (simp_all add: exCoreLabelled_def)
  from core_attribute_matched_by_name_only
         [where core = exCoreLabelled and passed = "[]" and cluster = Map.empty
            and protos = "[tyInputs]" and self = VSelf, OF h1] a1
  have r1: "magicValueForParameter ''count'' (Class tyActive) None [] exCoreLabelled Map.empty
              [tyInputs] VSelf = Inr (VInt 0)"
    by simp
  from core_attribute_matched_by_name_only
         [where core = exCoreLabelled and passed = "[]" and cluster = Map.empty
            and protos = "[tyInputs]" and self = VSelf, OF h2] a2
  have r2: "magicValueForParameter ''label'' (Class tyInputs) None [] exCoreLabelled Map.empty
              [tyInputs] VSelf = Inr VSelf"
    by (simp add: exCoreLabelled_def tyInputs_def tyCore_def)
  from h1 h2 a1 a2 r1 r2 show ?thesis by simp
qed

section \<open>The state cluster and the factory table\<close>

text \<open>What \<^verbatim>\<open>_updateState\<close> leaves behind, and the factory table that the loops of \<^verbatim>\<open>buildClass\<close> fill.\<close>

lemma updateState_frame:
  assumes "updateState self old a kw sf m protos = (r, self')"
  shows "selfStateCore self' = selfStateCore self \<and> selfTransitioner self' = selfTransitioner self"
  using assms
  by (auto simp: updateState_def Let_def split: option.splits sum.splits if_splits)

lemma updateState_Inr:
  assumes "updateState self old a kw sf m protos = (Inr (f, obj), self')"
  shows "sf (tstate (selfTransitioner self)) = Some f"
    and "selfStateCluster self (tstate (selfTransitioner self)) = Some obj \<and>
           nextIdent self' = nextIdent self
         \<or> selfStateCluster self (tstate (selfTransitioner self)) = None \<and>
           buildNewState VSelf m f (selfStateCore self) a kw (selfStateCluster self) protos
             (nextIdent self) = Inr obj \<and>
           nextIdent self' = Suc (nextIdent self)"
    and "selfStateCluster self' =
           (if (\<exists>left c. old = Some left \<and> left \<noteq> tstate (selfTransitioner self) \<and>
                         sf left = Some c \<and> \<not> persistState c)
            then ((selfStateCluster self)(tstate (selfTransitioner self) \<mapsto> obj))
                   (the old := None)
            else (selfStateCluster self)(tstate (selfTransitioner self) \<mapsto> obj))"
  using assms
  by (auto simp: updateState_def Let_def fun_upd_idem split: option.splits sum.splits if_splits)

lemma addStates_factories:
  "addStates possible cs sf au = Inr (sf', au') \<Longrightarrow>
     dom sf' = dom sf \<union> (\<lambda>c. tyname (stateType c)) ` set cs \<and>
     (\<forall>n c. sf' n = Some c \<longrightarrow> sf n = Some c \<or> (c \<in> set cs \<and> tyname (stateType c) = n))"
proof (induction cs arbitrary: sf au)
  case Nil
  then show ?case by simp
next
  case (Cons c cs)
  let ?n = "tyname (stateType c)"
  from Cons.prems obtain au1 where
    rest: "addStates possible cs (sf(?n \<mapsto> c)) au1 = Inr (sf', au')"
    by (cases "addHandlers possible ?n (stateInputs c) au") (simp_all add: Let_def)
  from Cons.IH [OF rest]
  have d: "dom sf' = dom (sf(?n \<mapsto> c)) \<union> (\<lambda>c. tyname (stateType c)) ` set cs"
    and v: "\<And>n c'. sf' n = Some c' \<Longrightarrow>
              (sf(?n \<mapsto> c)) n = Some c' \<or> (c' \<in> set cs \<and> tyname (stateType c') = n)"
    by blast+
  from d have "dom sf' = dom sf \<union> (\<lambda>c. tyname (stateType c)) ` set (c # cs)"
    by simp
  moreover have "sf n = Some c' \<or> (c' \<in> set (c # cs) \<and> tyname (stateType c') = n)"
    if "sf' n = Some c'" for n c'
    using v [OF that] by (cases "n = ?n") auto
  ultimately show ?case by (intro conjI allI impI)
qed

lemma addProtocols_factories:
  "addProtocols cs ps ns sf au = Inr (ns', sf', au') \<Longrightarrow> ps \<noteq> [] \<Longrightarrow>
     dom sf' = dom sf \<union> (\<lambda>c. tyname (stateType c)) ` set cs \<and>
     (\<forall>n c. sf' n = Some c \<longrightarrow> sf n = Some c \<or> (c \<in> set cs \<and> tyname (stateType c) = n))"
proof (induction ps arbitrary: ns sf au)
  case Nil
  then show ?case by simp
next
  case (Cons p ps)
  from Cons.prems(1) obtain sf1 au1 where
    first: "addStates (map methodName (protocolMethods p)) cs sf au = Inr (sf1, au1)"
    and rest: "addProtocols cs ps (map (\<lambda>m. (methodName m, m)) (protocolMethods p) @ ns) sf1 au1
               = Inr (ns', sf', au')"
    by (cases "addStates (map methodName (protocolMethods p)) cs sf au")
       (auto simp: Let_def)
  from addStates_factories [OF first]
  have d1: "dom sf1 = dom sf \<union> (\<lambda>c. tyname (stateType c)) ` set cs"
    and v1: "\<And>n c. sf1 n = Some c \<Longrightarrow>
               sf n = Some c \<or> (c \<in> set cs \<and> tyname (stateType c) = n)"
    by blast+
  show ?case
  proof (cases ps)
    case Nil
    with rest have "sf' = sf1" by simp
    with d1 v1 show ?thesis by (intro conjI allI impI) simp_all
  next
    case (Cons q qs)
    then have "ps \<noteq> []" by simp
    from Cons.IH [OF rest this]
    have d2: "dom sf' = dom sf1 \<union> (\<lambda>c. tyname (stateType c)) ` set cs"
      and v2: "\<And>n c. sf' n = Some c \<Longrightarrow>
                 sf1 n = Some c \<or> (c \<in> set cs \<and> tyname (stateType c) = n)"
      by blast+
    have "dom sf' = dom sf \<union> (\<lambda>c. tyname (stateType c)) ` set cs"
      unfolding d2 d1 by (simp add: Un_assoc)
    moreover have "sf n = Some c \<or> (c \<in> set cs \<and> tyname (stateType c) = n)"
      if "sf' n = Some c" for n c
      using v2 [OF that] v1 by blast
    ultimately show ?thesis by (intro conjI allI impI)
  qed
qed


lemma buildClass_factories:
  assumes "fst (buildClass b) = Inr cls"
  shows "dom (classStateFactories cls) =
           (\<lambda>c. tyname (stateType c)) ` set (stateClasses b @ [errorState b])"
    and "classStateFactories cls n = Some c \<Longrightarrow>
           c \<in> set (stateClasses b @ [errorState b]) \<and> tyname (stateType c) = n"
proof -
  from assms obtain ns sf au where
    loops: "addProtocols (stateClasses b @ [errorState b]) (stateProtocol b # privateProtocols b)
              [] Map.empty
              (unhandledTransition emptyAutomaton (tyname (stateType (errorState b))) [None])
            = Inr (ns, sf, au)"
    and sf: "classStateFactories cls = sf"
    by (auto simp: buildClass_def Let_def split: if_splits sum.splits list.splits)
  from addProtocols_factories [OF loops] sf
  show "dom (classStateFactories cls) =
           (\<lambda>c. tyname (stateType c)) ` set (stateClasses b @ [errorState b])"
    and "classStateFactories cls n = Some c \<Longrightarrow>
           c \<in> set (stateClasses b @ [errorState b]) \<and> tyname (stateType c) = n"
    by auto
qed

lemma buildClass_example: "buildClass exBuilder = (Inr exClass, exBuilder\<lparr>built := True\<rparr>)"
  by (simp add: buildClass_def Let_def exBuilder_def exClass_def exFactories_def exAutomaton_def
      exIdle_def exActive_def exDone_def exErrorState_def stateInputs_def addTransition_def
      unhandledTransition_def emptyAutomaton_def exStart_def exStop_def exFinish_def
      tyIdle_def tyActive_def tyDone_def tyErrorState_def tyInputs_def)

lemma enter_active_example:
  "updateState (exInstance ''Active'' [''Idle'' \<mapsto> idleObject] 1) (Some ''Idle'') [] []
     exFactories (Some exStart) [tyInputs]
   = (Inr (exActive, activeObject 1),
      exInstance ''Active'' [''Idle'' \<mapsto> idleObject, ''Active'' \<mapsto> activeObject 1] 2)"
  by (simp add: updateState_def Let_def exInstance_def exFactories_def buildNewState_def
      exStart_def selfParam_def exActive_def exIdle_def magicValueForParameter_def
      getattrOrNone_def exCore_def activeObject_def tyCore_def tyActive_def)

text \<open>
  C10: the state cluster and the table of state factories are keyed by the \<^verbatim>\<open>__name__\<close> of
  the state class, and the sibling-state rule looks the name of the declared type up in the
  cluster: when rules (1) and (2) do not apply, whatever object is stored under that name is
  the result, nothing compares its class with the declared type. The keys of the factory
  table that \<^verbatim>\<open>buildClass\<close> returns are the names of the state classes and of the error
  state, each entry stored under the name of its class; \<^verbatim>\<open>_updateState\<close> looks the factory up
  and stores the state object under the name of the current state.
\<close>

theorem cluster_and_factories_keyed_by_class_name:
  "(\<not> transitionSupplies sg n (Class ty) \<and> getattrOrNone core n = VNone \<and>
      cluster (tyname ty) = Some obj \<longrightarrow>
      magicValueForParameter n (Class ty) sg passed core cluster protos syntheticSelf = Inr obj)
   \<and> (fst (buildClass b) = Inr cls \<longrightarrow>
        dom (classStateFactories cls) =
          (\<lambda>c. tyname (stateType c)) ` set (stateClasses b @ [errorState b]) \<and>
        (\<forall>key c. classStateFactories cls key = Some c \<longrightarrow> tyname (stateType c) = key))
   \<and> (updateState self old a kw sf m inputProtocols = (Inr (f, stateObject), self') \<longrightarrow>
        sf (tstate (selfTransitioner self)) = Some f \<and>
        selfStateCluster self' (tstate (selfTransitioner self)) = Some stateObject)"
proof (intro conjI impI)
  assume "\<not> transitionSupplies sg n (Class ty) \<and> getattrOrNone core n = VNone \<and>
      cluster (tyname ty) = Some obj"
  then show "magicValueForParameter n (Class ty) sg passed core cluster protos syntheticSelf
             = Inr obj"
    by (simp add: magic_cases)
next
  assume "fst (buildClass b) = Inr cls"
  from buildClass_factories [OF this]
  show "dom (classStateFactories cls) =
          (\<lambda>c. tyname (stateType c)) ` set (stateClasses b @ [errorState b])"
    and "\<forall>key c. classStateFactories cls key = Some c \<longrightarrow> tyname (stateType c) = key"
    by blast+
next
  assume u: "updateState self old a kw sf m inputProtocols = (Inr (f, stateObject), self')"
  from updateState_Inr(1) [OF u]
  show "sf (tstate (selfTransitioner self)) = Some f" .
  from updateState_Inr(3) [OF u]
  show "selfStateCluster self' (tstate (selfTransitioner self)) = Some stateObject"
    by (auto split: if_splits)
qed


theorem cluster_and_factories_keyed_by_class_name_witness:
  "\<not> transitionSupplies (Some (methodSignature exStart)) ''other'' (Class tyOtherIdle)
   \<and> getattrOrNone exCore ''other'' = VNone
   \<and> [''Idle'' \<mapsto> idleObject] (tyname tyOtherIdle) = Some idleObject
   \<and> magicValueForParameter ''other'' (Class tyOtherIdle) (Some (methodSignature exStart))
        [(''self'', VCore)] exCore [''Idle'' \<mapsto> idleObject]
        [tyInputs] VSelf = Inr idleObject
   \<and> classOf idleObject = Some tyIdle \<and> tyIdle \<noteq> tyOtherIdle
   \<and> fst (buildClass exBuilder) = Inr exClass
   \<and> dom (classStateFactories exClass) = {''Idle'', ''Active'', ''Done'', ''ErrorState''}
   \<and> updateState (exInstance ''Active'' [''Idle'' \<mapsto> idleObject] 1) (Some ''Idle'') [] []
        exFactories (Some exStart) [tyInputs]
      = (Inr (exActive, activeObject 1),
         exInstance ''Active'' [''Idle'' \<mapsto> idleObject, ''Active'' \<mapsto> activeObject 1] 2)
   \<and> exFactories ''Active'' = Some exActive
   \<and> selfStateCluster
        (exInstance ''Active'' [''Idle'' \<mapsto> idleObject, ''Active'' \<mapsto> activeObject 1] 2)
        ''Active'' = Some (activeObject 1)"
proof -
  have h1: "\<not> transitionSupplies (Some (methodSignature exStart)) ''other'' (Class tyOtherIdle)"
    by (simp add: transitionSupplies_def exStart_def selfParam_def)
  have h2: "getattrOrNone exCore ''other'' = VNone"
    by (simp add: getattrOrNone_def exCore_def)
  have h3: "[''Idle'' \<mapsto> idleObject] (tyname tyOtherIdle) = Some idleObject"
    by (simp add: tyOtherIdle_def)
  have h4: "fst (buildClass exBuilder) = Inr exClass"
    by (simp add: buildClass_example)
  note h5 = enter_active_example
  have c: "classOf idleObject = Some tyIdle \<and> tyIdle \<noteq> tyOtherIdle"
    by (simp add: idleObject_def tyIdle_def tyOtherIdle_def)
  note t = cluster_and_factories_keyed_by_class_name
    [where sg = "Some (methodSignature exStart)" and n = "''other''" and ty = tyOtherIdle and core = exCore
       and cluster = "[''Idle'' \<mapsto> idleObject]" and obj = idleObject and passed = "[(''self'', VCore)]"
       and protos = "[tyInputs]" and syntheticSelf = VSelf and b = exBuilder and cls = exClass
       and self = "exInstance ''Active'' [''Idle'' \<mapsto> idleObject] 1" and old = "Some ''Idle''"
       and a = "[]" and kw = "[]" and sf = exFactories and m = "Some exStart"
       and inputProtocols = "[tyInputs]" and f = exActive and stateObject = "activeObject 1"
       and self' = "exInstance ''Active'' [''Idle'' \<mapsto> idleObject, ''Active'' \<mapsto> activeObject 1] 2"]
  from t h1 h2 h3
  have r1: "magicValueForParameter ''other'' (Class tyOtherIdle) (Some (methodSignature exStart))
        [(''self'', VCore)] exCore
              [''Idle'' \<mapsto> idleObject] [tyInputs] VSelf = Inr idleObject"
    by blast
  from t h4
  have "dom (classStateFactories exClass) =
          (\<lambda>c. tyname (stateType c)) ` set (stateClasses exBuilder @ [errorState exBuilder])"
    by blast
  then have r2: "dom (classStateFactories exClass) = {''Idle'', ''Active'', ''Done'', ''ErrorState''}"
    by (simp add: exBuilder_def exIdle_def exActive_def exDone_def exErrorState_def
        tyIdle_def tyActive_def tyDone_def tyErrorState_def)
  from t h5
  have r3: "exFactories ''Active'' = Some exActive \<and>
            selfStateCluster
              (exInstance ''Active'' [''Idle'' \<mapsto> idleObject, ''Active'' \<mapsto> activeObject 1] 2)
              ''Active'' = Some (activeObject 1)"
    by (simp add: exInstance_def)
  from h1 h2 h3 r1 c h4 r2 h5 r3 show ?thesis by blast
qed

section \<open>The order of the resolution rules\<close>

text \<open>The keyword arguments of the factory call: one per parameter without default, in order.\<close>

lemma resolveParameters_skips_defaults:
  "resolveParameters sg passed core cluster protos self ps = Inr k \<Longrightarrow>
     list_all2 (\<lambda>p nv. fst nv = pname p \<and>
                  magicValueForParameter (pname p) (annotation p) sg passed core cluster
                    protos self = Inr (snd nv))
       (filter (\<lambda>p. pdefault p = None) ps) k"
  by (induction ps arbitrary: k) (auto split: if_splits sum.splits)

text \<open>
  What the resolver does achieve. Let the caller have passed a value for the input
  parameter that rule (1) matches, let the declared type be a class, and let the object
  that the cluster holds under the name of that class, if any, be of that class. Then the
  resolver returns the value of the first of the five rules that succeeds, in the order of
  the claim, and a transition-supplied value wins over a state-core attribute. The factory
  is called with exactly one keyword argument per parameter without default, the resolver's
  value for it; a parameter with a default is not resolved and not passed.
\<close>

lemma resolution_order:
  assumes "transitionSupplies sg n ty \<Longrightarrow> map_of passed n \<noteq> None"
    and "ty = Class c"
    and "\<And>sibling. cluster (tyname c) = Some sibling \<Longrightarrow> classOf sibling = Some c"
  shows "magicValueForParameter n ty sg passed core cluster protos self
           = firstSuccess (candidatesAsStated n ty sg passed core cluster protos self) n
       \<and> (\<forall>v. transitionSupplies sg n ty \<and> map_of passed n = Some v \<longrightarrow>
              magicValueForParameter n ty sg passed core cluster protos self = Inr v)
       \<and> (\<forall>obj. buildNewState self transitionMethod stateFactory core args kwargs cluster
                   protos ident = Inr obj \<longrightarrow>
              (\<exists>bound k.
                 (case map_option methodSignature transitionMethod of
                    None \<Rightarrow> Inr []
                  | Some sig \<Rightarrow> signatureBind sig (VCore # args) kwargs) = Inr bound \<and>
                 obj = VObj ident (stateType stateFactory) k \<and>
                 list_all2 (\<lambda>p nv. fst nv = pname p \<and>
                              magicValueForParameter (pname p) (annotation p)
                                (map_option methodSignature transitionMethod) bound core
                                cluster protos self = Inr (snd nv))
                   (filter (\<lambda>p. pdefault p = None) (factorySignature stateFactory)) k))"
proof (intro conjI allI impI)
  show "magicValueForParameter n ty sg passed core cluster protos self
          = firstSuccess (candidatesAsStated n ty sg passed core cluster protos self) n"
  proof (cases "cluster (tyname c)")
    case None
    with assms(1,2) show ?thesis
      by (auto simp: magic_cases candidatesAsStated_def)
  next
    case (Some sibling)
    with assms(1,2) assms(3) [OF Some] show ?thesis
      by (auto simp: magic_cases candidatesAsStated_def)
  qed
next
  fix v
  assume "transitionSupplies sg n ty \<and> map_of passed n = Some v"
  then show "magicValueForParameter n ty sg passed core cluster protos self = Inr v"
    by (simp add: magic_cases)
next
  fix obj
  assume b: "buildNewState self transitionMethod stateFactory core args kwargs cluster
               protos ident = Inr obj"
  then obtain bound where
    bound: "(case map_option methodSignature transitionMethod of
               None \<Rightarrow> Inr []
             | Some sig \<Rightarrow> signatureBind sig (VCore # args) kwargs) = Inr bound"
    by (cases "case map_option methodSignature transitionMethod of
                 None \<Rightarrow> Inr []
               | Some sig \<Rightarrow> signatureBind sig (VCore # args) kwargs")
       (simp_all add: buildNewState_def)
  with b obtain k where
    k: "resolveParameters (map_option methodSignature transitionMethod) bound core cluster
          protos self (factorySignature stateFactory) = Inr k"
    and obj: "obj = VObj ident (stateType stateFactory) k"
    by (cases "resolveParameters (map_option methodSignature transitionMethod) bound core
                 cluster protos self (factorySignature stateFactory)")
       (auto simp: buildNewState_def)
  from resolveParameters_skips_defaults [OF k] bound obj
  show "\<exists>bound k.
          (case map_option methodSignature transitionMethod of
             None \<Rightarrow> Inr []
           | Some sig \<Rightarrow> signatureBind sig (VCore # args) kwargs) = Inr bound \<and>
          obj = VObj ident (stateType stateFactory) k \<and>
          list_all2 (\<lambda>p nv. fst nv = pname p \<and>
                       magicValueForParameter (pname p) (annotation p)
                         (map_option methodSignature transitionMethod) bound core
                         cluster protos self = Inr (snd nv))
            (filter (\<lambda>p. pdefault p = None) (factorySignature stateFactory)) k"
    by blast
qed

text \<open>
  \<open>start\<close> called with the count 5 enters a state constructed from a count, while the state
  core has a count of its own: the caller's value is passed, and the step, which has a
  default, is not.
\<close>

lemma transition_value_wins_example:
  "transitionSupplies (Some (methodSignature exStartCount)) ''count'' (Class tyInt)
   \<and> getattrOrNone exCore ''count'' = VInt 0
   \<and> buildNewState VSelf (Some exStartCount) exCounting exCore [VInt 5] []
        [''Idle'' \<mapsto> idleObject] [tyInputs] 1
       = Inr (VObj 1 (stateType exCounting) [(''count'', VInt 5)])"
  by (simp add: transitionSupplies_def buildNewState_def exStartCount_def selfParam_def
      exCounting_def magicValueForParameter_def getattrOrNone_def exCore_def)

text \<open>
  C3 fails on the code at two inputs. For \<open>other\<close>, whose declared type is a class named
  \<open>Idle\<close> that is not the state class \<open>Idle\<close>, no rule of the claim succeeds, and the
  resolver returns the object of the state \<open>Idle\<close>: rule (3) looks the name of the declared
  type up in the cluster and compares no types. For \<open>count\<close>, which \<open>start\<close> declares with a
  default and the caller leaves out, no argument is supplied by the transition and the
  first rule that succeeds is the state-core attribute; the resolver raises \<^verbatim>\<open>KeyError\<close>,
  because rule (1) matches on the signature of the input alone.
\<close>

theorem resolution_failing_inputs:
  "magicValueForParameter ''other'' (Class tyOtherIdle) (Some (methodSignature exStart))
     [(''self'', VCore)] exCore [''Idle'' \<mapsto> idleObject] [tyInputs] VSelf = Inr idleObject
   \<and> classOf idleObject = Some tyIdle \<and> tyIdle \<noteq> tyOtherIdle
   \<and> firstSuccess
        (candidatesAsStated ''other'' (Class tyOtherIdle) (Some (methodSignature exStart))
           [(''self'', VCore)] exCore [''Idle'' \<mapsto> idleObject] [tyInputs] VSelf) ''other''
       = Inl (couldNotFind ''other'')
   \<and> signatureBind (methodSignature exStartDefault) [VCore] [] = Inr [(''self'', VCore)]
   \<and> magicValueForParameter ''count'' (Class tyInt) (Some (methodSignature exStartDefault))
        [(''self'', VCore)] exCore [''Idle'' \<mapsto> idleObject] [tyInputs] VSelf
       = Inl (KeyError ''count'')
   \<and> firstSuccess
        (candidatesAsStated ''count'' (Class tyInt) (Some (methodSignature exStartDefault))
           [(''self'', VCore)] exCore [''Idle'' \<mapsto> idleObject] [tyInputs] VSelf) ''count''
       = Inr (VInt 0)"
proof -
  have a: "magicValueForParameter ''other'' (Class tyOtherIdle) (Some (methodSignature exStart))
             [(''self'', VCore)] exCore [''Idle'' \<mapsto> idleObject] [tyInputs] VSelf
           = Inr idleObject"
    by (simp add: magicValueForParameter_def exStart_def selfParam_def getattrOrNone_def
        exCore_def tyOtherIdle_def)
  have b: "classOf idleObject = Some tyIdle" and c: "tyIdle \<noteq> tyOtherIdle"
    by (simp_all add: idleObject_def tyIdle_def tyOtherIdle_def)
  have d: "firstSuccess
        (candidatesAsStated ''other'' (Class tyOtherIdle) (Some (methodSignature exStart))
           [(''self'', VCore)] exCore [''Idle'' \<mapsto> idleObject] [tyInputs] VSelf) ''other''
       = Inl (couldNotFind ''other'')"
    by (auto simp: candidatesAsStated_def transitionSupplies_def exStart_def selfParam_def
        getattrOrNone_def exCore_def tyOtherIdle_def idleObject_def tyIdle_def tyCore_def
        tyInputs_def)
  have e: "signatureBind (methodSignature exStartDefault) [VCore] [] = Inr [(''self'', VCore)]"
    by (simp add: exStartDefault_def selfParam_def)
  have f: "magicValueForParameter ''count'' (Class tyInt) (Some (methodSignature exStartDefault))
        [(''self'', VCore)] exCore [''Idle'' \<mapsto> idleObject] [tyInputs] VSelf
       = Inl (KeyError ''count'')"
    by (simp add: magicValueForParameter_def exStartDefault_def selfParam_def)
  have g: "firstSuccess
        (candidatesAsStated ''count'' (Class tyInt) (Some (methodSignature exStartDefault))
           [(''self'', VCore)] exCore [''Idle'' \<mapsto> idleObject] [tyInputs] VSelf) ''count''
       = Inr (VInt 0)"
    by (simp add: candidatesAsStated_def transitionSupplies_def exStartDefault_def
        selfParam_def getattrOrNone_def exCore_def)
  show ?thesis
    by (intro conjI) (fact a b c d e f g)+
qed

section \<open>Input dispatch\<close>

text \<open>The definitions of the example machine and of the dispatch, for evaluation.\<close>

lemmas example_defs =
  exInstance_def exFactories_def exAutomaton_def exIdle_def exActive_def exDone_def
  exErrorState_def exStart_def exStop_def exFinish_def selfParam_def exCore_def exCall_def
  idleObject_def activeObject_def tyIdle_def tyActive_def tyDone_def tyErrorState_def
  tyCore_def tyInputs_def tyEmpty_def

lemmas dispatch_defs =
  bindableInputMethod_def updateState_def buildNewState_def magicValueForParameter_def
  getattrOrNone_def transition_def outputForInput_def Let_def

text \<open>Two calls on a fresh instance of the example: \<open>start\<close>, and \<open>stop\<close>, which \<open>Idle\<close> does not handle.\<close>

lemma start_in_idle_example:
  "bindableInputMethod exStart exFactories [tyInputs] exCall
     (exInstance ''Idle'' [''Idle'' \<mapsto> idleObject] 1) [] []
   = (Inr (VStr ''Idle.begin''),
      exInstance ''Active'' [''Idle'' \<mapsto> idleObject, ''Active'' \<mapsto> activeObject 1] 2)"
  by (simp add: dispatch_defs example_defs)


text \<open>
  C1, as stated, fails: \<open>start\<close> in \<open>Idle\<close> enters \<open>Active\<close>, and the output method \<open>begin\<close>
  that the table reports is invoked on the \<open>Idle\<close> object, which was fetched from the cluster
  before the cursor moved; the object of the new current state, \<open>Active\<close>, has no such
  method.
\<close>

theorem output_on_entered_state_counterexample:
  "transition \<lparr>tautomaton = exAutomaton, tstate = ''Idle''\<rparr> ''start''
     = Inr ([Some ''begin''], \<lparr>tautomaton = exAutomaton, tstate = ''Active''\<rparr>)
   \<and> bindableInputMethod exStart exFactories [tyInputs] exCall
        (exInstance ''Idle'' [''Idle'' \<mapsto> idleObject] 1) [] []
      = (Inr (VStr ''Idle.begin''),
         exInstance ''Active'' [''Idle'' \<mapsto> idleObject, ''Active'' \<mapsto> activeObject 1] 2)
   \<and> selfStateCluster
        (exInstance ''Active'' [''Idle'' \<mapsto> idleObject, ''Active'' \<mapsto> activeObject 1] 2)
        (tstate (selfTransitioner
           (exInstance ''Active'' [''Idle'' \<mapsto> idleObject, ''Active'' \<mapsto> activeObject 1] 2)))
      = Some (activeObject 1)
   \<and> exCall (activeObject 1) ''begin'' [] [] = Inl (AttributeError ''begin'')
   \<and> exCall idleObject ''begin'' [] [] = Inr (VStr ''Idle.begin'')
   \<and> fst (bindableInputMethod exStart exFactories [tyInputs] exCall
             (exInstance ''Idle'' [''Idle'' \<mapsto> idleObject] 1) [] [])
      \<noteq> exCall (activeObject 1) ''begin'' [] []"
proof -
  note run = start_in_idle_example
  have lookup: "transition \<lparr>tautomaton = exAutomaton, tstate = ''Idle''\<rparr> ''start''
          = Inr ([Some ''begin''], \<lparr>tautomaton = exAutomaton, tstate = ''Active''\<rparr>)"
    by (simp add: transition_def outputForInput_def exAutomaton_def)
  have entered: "selfStateCluster
        (exInstance ''Active'' [''Idle'' \<mapsto> idleObject, ''Active'' \<mapsto> activeObject 1] 2)
        (tstate (selfTransitioner
           (exInstance ''Active'' [''Idle'' \<mapsto> idleObject, ''Active'' \<mapsto> activeObject 1] 2)))
      = Some (activeObject 1)"
    by (simp add: exInstance_def)
  have onActive: "exCall (activeObject 1) ''begin'' [] [] = Inl (AttributeError ''begin'')"
    and onIdle: "exCall idleObject ''begin'' [] [] = Inr (VStr ''Idle.begin'')"
    by (simp_all add: exCall_def activeObject_def idleObject_def tyActive_def tyIdle_def)
  have differ: "fst (bindableInputMethod exStart exFactories [tyInputs] exCall
             (exInstance ''Idle'' [''Idle'' \<mapsto> idleObject] 1) [] [])
      \<noteq> exCall (activeObject 1) ''begin'' [] []"
    unfolding run onActive by simp
  show ?thesis
    by (intro conjI) (fact lookup run entered onActive onIdle differ)+
qed

text \<open>
  C1, amended: when the table lookup reports an output method and \<^verbatim>\<open>_updateState\<close> succeeds
  (the object of the state entered is in the cluster or is built), the call invokes that
  output method on the data object of the state that was current when the call began, with
  the caller's positional and keyword arguments, and returns its result unchanged.
\<close>

theorem output_invoked_on_object_of_state_left:
  assumes "selfStateCluster self (tstate (selfTransitioner self)) = Some stateObject"
    and "transition (selfTransitioner self) (methodName inputMethod) = Inr ([Some out], moved)"
    and "updateState (self\<lparr>selfTransitioner := moved\<rparr>) (Some (tstate (selfTransitioner self)))
           a kw sf (Some inputMethod) protos = (Inr updated, self2)"
  shows "bindableInputMethod inputMethod sf protos callMethod self a kw
           = (callMethod stateObject out a kw, self2)"
  using assms by (simp add: bindableInputMethod_def Let_def)

theorem output_invoked_on_object_of_state_left_witness:
  "selfStateCluster (exInstance ''Idle'' [''Idle'' \<mapsto> idleObject] 1)
     (tstate (selfTransitioner (exInstance ''Idle'' [''Idle'' \<mapsto> idleObject] 1)))
     = Some idleObject
   \<and> transition (selfTransitioner (exInstance ''Idle'' [''Idle'' \<mapsto> idleObject] 1))
        (methodName exStart)
      = Inr ([Some ''begin''], \<lparr>tautomaton = exAutomaton, tstate = ''Active''\<rparr>)
   \<and> updateState (exInstance ''Active'' [''Idle'' \<mapsto> idleObject] 1) (Some ''Idle'') [] []
        exFactories (Some exStart) [tyInputs]
      = (Inr (exActive, activeObject 1),
         exInstance ''Active'' [''Idle'' \<mapsto> idleObject, ''Active'' \<mapsto> activeObject 1] 2)
   \<and> bindableInputMethod exStart exFactories [tyInputs] exCall
        (exInstance ''Idle'' [''Idle'' \<mapsto> idleObject] 1) [] []
      = (exCall idleObject ''begin'' [] [],
         exInstance ''Active'' [''Idle'' \<mapsto> idleObject, ''Active'' \<mapsto> activeObject 1] 2)"
proof -
  let ?i0 = "exInstance ''Idle'' [''Idle'' \<mapsto> idleObject] 1"
  let ?moved = "\<lparr>tautomaton = exAutomaton, tstate = ''Active''\<rparr>"
  have h1: "selfStateCluster ?i0 (tstate (selfTransitioner ?i0)) = Some idleObject"
    by (simp add: exInstance_def)
  have h2: "transition (selfTransitioner ?i0) (methodName exStart) = Inr ([Some ''begin''], ?moved)"
    by (simp add: transition_def outputForInput_def exInstance_def exAutomaton_def exStart_def)
  have eq: "?i0\<lparr>selfTransitioner := ?moved\<rparr> = exInstance ''Active'' [''Idle'' \<mapsto> idleObject] 1"
    and old: "tstate (selfTransitioner ?i0) = ''Idle''"
    by (simp_all add: exInstance_def)
  have h3: "updateState (?i0\<lparr>selfTransitioner := ?moved\<rparr>) (Some (tstate (selfTransitioner ?i0)))
              [] [] exFactories (Some exStart) [tyInputs]
            = (Inr (exActive, activeObject 1),
               exInstance ''Active'' [''Idle'' \<mapsto> idleObject, ''Active'' \<mapsto> activeObject 1] 2)"
    unfolding eq old by (rule enter_active_example)
  from output_invoked_on_object_of_state_left [OF h1 h2 h3, of exCall]
  have "bindableInputMethod exStart exFactories [tyInputs] exCall ?i0 [] []
        = (exCall idleObject ''begin'' [] [],
           exInstance ''Active'' [''Idle'' \<mapsto> idleObject, ''Active'' \<mapsto> activeObject 1] 2)" .
  with h1 h2 h3 [unfolded eq old] show ?thesis by blast
qed

section \<open>Unhandled inputs\<close>



text \<open>The cluster after a successful \<^verbatim>\<open>_updateState\<close>, entry by entry.\<close>

lemma updateState_cluster:
  assumes "updateState self old a kw sf m protos = (Inr (f, obj), self')"
  shows "selfStateCluster self' (tstate (selfTransitioner self)) = Some obj"
    and "s \<noteq> tstate (selfTransitioner self) \<Longrightarrow> old \<noteq> Some s \<Longrightarrow>
           selfStateCluster self' s = selfStateCluster self s"
    and "old = Some left \<Longrightarrow> left \<noteq> tstate (selfTransitioner self) \<Longrightarrow>
           \<exists>c. sf left = Some c \<and>
               selfStateCluster self' left =
                 (if persistState c then selfStateCluster self left else None)"
  using assms
  by (auto simp: updateState_def Let_def split: option.splits sum.splits if_splits)





section \<open>Ambiguous bindings\<close>

text \<open>
  What the loops of \<^verbatim>\<open>buildClass\<close> register: every handler whose input is a method of the
  protocol at hand is passed to \<^verbatim>\<open>addTransition\<close>, whose failure ends the build.
\<close>

lemma addTransition_Inr:
  "addTransition au s i n outs = Inr au' \<Longrightarrow> keys au' = keys au @ [(s, i)] \<and> (s, i) \<notin> set (keys au)"
  by (auto simp: addTransition_def keys_def split: if_splits)

lemma addTransition_Inl:
  "addTransition au s i n outs = Inl e \<Longrightarrow> \<exists>s' i'. e = ConfigurationError s' i'"
  by (auto simp: addTransition_def split: if_splits)

lemma addHandlers_Inl:
  "addHandlers possible s hs au = Inl e \<Longrightarrow> \<exists>s' i'. e = ConfigurationError s' i'"
proof (induction hs arbitrary: au)
  case Nil
  then show ?case by simp
next
  case (Cons h hs)
  obtain out i n where h: "h = (out, i, n)" by (cases h)
  show ?case
  proof (cases "i \<in> set possible")
    case False
    with Cons h show ?thesis by simp
  next
    case True
    show ?thesis
    proof (cases "addTransition au s i n [Some out]")
      case (Inl e')
      with Cons.prems h True addTransition_Inl [OF Inl] show ?thesis by simp
    next
      case (Inr au1)
      with Cons.prems h True have "addHandlers possible s hs au1 = Inl e" by simp
      from Cons.IH [OF this] show ?thesis .
    qed
  qed
qed

lemma addHandlers_Inr:
  "addHandlers possible s hs au = Inr au' \<Longrightarrow> distinct (keys au) \<Longrightarrow>
     keys au' = keys au @ filter (\<lambda>k. snd k \<in> set possible) (map (\<lambda>h. (s, fst (snd h))) hs) \<and>
     distinct (keys au')"
proof (induction hs arbitrary: au)
  case Nil
  then show ?case by simp
next
  case (Cons h hs)
  obtain out i n where h: "h = (out, i, n)" by (cases h)
  show ?case
  proof (cases "i \<in> set possible")
    case False
    with Cons.prems h have "addHandlers possible s hs au = Inr au'" by simp
    from Cons.IH [OF this Cons.prems(2)]
    have k: "keys au' = keys au @ filter (\<lambda>k. snd k \<in> set possible) (map (\<lambda>h. (s, fst (snd h))) hs)"
      and d: "distinct (keys au')"
      by blast+
    from False h
    have "filter (\<lambda>k. snd k \<in> set possible) (map (\<lambda>h. (s, fst (snd h))) (h # hs))
          = filter (\<lambda>k. snd k \<in> set possible) (map (\<lambda>h. (s, fst (snd h))) hs)"
      by simp
    with k d show ?thesis by (intro conjI) (simp_all only:)
  next
    case True
    with Cons.prems h obtain au1 where
      one: "addTransition au s i n [Some out] = Inr au1"
      and rest: "addHandlers possible s hs au1 = Inr au'"
      by (cases "addTransition au s i n [Some out]") simp_all
    from addTransition_Inr [OF one]
    have k1: "keys au1 = keys au @ [(s, i)]" and fresh: "(s, i) \<notin> set (keys au)"
      by blast+
    from fresh Cons.prems(2) have d1: "distinct (keys au1)"
      unfolding k1 by simp
    from Cons.IH [OF rest d1]
    have k: "keys au' = keys au1 @ filter (\<lambda>k. snd k \<in> set possible) (map (\<lambda>h. (s, fst (snd h))) hs)"
      and d: "distinct (keys au')"
      by blast+
    from True h
    have "filter (\<lambda>k. snd k \<in> set possible) (map (\<lambda>h. (s, fst (snd h))) (h # hs))
          = (s, i) # filter (\<lambda>k. snd k \<in> set possible) (map (\<lambda>h. (s, fst (snd h))) hs)"
      by simp
    then have "keys au' = keys au @ filter (\<lambda>k. snd k \<in> set possible)
                                     (map (\<lambda>h. (s, fst (snd h))) (h # hs))"
      unfolding k k1 by simp
    with d show ?thesis by (intro conjI)
  qed
qed

lemma stateInputs_bindings:
  "map (\<lambda>h. (tyname (stateType c), fst (snd h))) (stateInputs c) = classBindings c"
  by (simp add: stateInputs_def classBindings_def o_def)

lemma addStates_Inl:
  "addStates possible cs sf au = Inl e \<Longrightarrow> \<exists>s' i'. e = ConfigurationError s' i'"
proof (induction cs arbitrary: sf au)
  case Nil
  then show ?case by simp
next
  case (Cons c cs)
  show ?case
  proof (cases "addHandlers possible (tyname (stateType c)) (stateInputs c) au")
    case (Inl e')
    with Cons.prems addHandlers_Inl [OF Inl] show ?thesis by (simp add: Let_def)
  next
    case (Inr au1)
    with Cons.prems
    have "addStates possible cs (sf(tyname (stateType c) \<mapsto> c)) au1 = Inl e"
      by (simp add: Let_def)
    from Cons.IH [OF this] show ?thesis .
  qed
qed

lemma addStates_Inr:
  "addStates possible cs sf au = Inr (sf', au') \<Longrightarrow> distinct (keys au) \<Longrightarrow>
     keys au' = keys au @ filter (\<lambda>k. snd k \<in> set possible) (concat (map classBindings cs)) \<and>
     distinct (keys au')"
proof (induction cs arbitrary: sf au)
  case Nil
  then show ?case by simp
next
  case (Cons c cs)
  from Cons.prems(1) obtain au1 where
    one: "addHandlers possible (tyname (stateType c)) (stateInputs c) au = Inr au1"
    and rest: "addStates possible cs (sf(tyname (stateType c) \<mapsto> c)) au1 = Inr (sf', au')"
    by (cases "addHandlers possible (tyname (stateType c)) (stateInputs c) au")
       (simp_all add: Let_def)
  from addHandlers_Inr [OF one Cons.prems(2)]
  have k1: "keys au1 = keys au @ filter (\<lambda>k. snd k \<in> set possible) (classBindings c)"
    and d1: "distinct (keys au1)"
    unfolding stateInputs_bindings by blast+
  from Cons.IH [OF rest d1]
  have k: "keys au' = keys au1 @ filter (\<lambda>k. snd k \<in> set possible) (concat (map classBindings cs))"
    and d: "distinct (keys au')"
    by blast+
  have "keys au' = keys au @ filter (\<lambda>k. snd k \<in> set possible)
                                   (concat (map classBindings (c # cs)))"
    unfolding k k1 by simp
  with d show ?case by (intro conjI)
qed

lemma addProtocols_Inl:
  "addProtocols cs ps ns sf au = Inl e \<Longrightarrow> \<exists>s' i'. e = ConfigurationError s' i'"
proof (induction ps arbitrary: ns sf au)
  case Nil
  then show ?case by simp
next
  case (Cons p ps)
  show ?case
  proof (cases "addStates (map methodName (protocolMethods p)) cs sf au")
    case (Inl e')
    with Cons.prems addStates_Inl [OF Inl] show ?thesis by (simp add: Let_def)
  next
    case (Inr r)
    obtain sf1 au1 where r: "r = (sf1, au1)" by (cases r)
    with Inr Cons.prems
    have "addProtocols cs ps (map (\<lambda>m. (methodName m, m)) (protocolMethods p) @ ns) sf1 au1 = Inl e"
      by (simp add: Let_def)
    from Cons.IH [OF this] show ?thesis .
  qed
qed

lemma addProtocols_distinct:
  "addProtocols cs ps ns sf au = Inr (ns', sf', au') \<Longrightarrow> distinct (keys au) \<Longrightarrow>
     distinct (keys au')"
proof (induction ps arbitrary: ns sf au)
  case Nil
  then show ?case by simp
next
  case (Cons q ps)
  from Cons.prems(1) obtain sf1 au1 where
    one: "addStates (map methodName (protocolMethods q)) cs sf au = Inr (sf1, au1)"
    and rest: "addProtocols cs ps (map (\<lambda>m. (methodName m, m)) (protocolMethods q) @ ns) sf1 au1
               = Inr (ns', sf', au')"
    by (cases "addStates (map methodName (protocolMethods q)) cs sf au") (auto simp: Let_def)
  from addStates_Inr [OF one Cons.prems(2)] have "distinct (keys au1)" by blast
  from Cons.IH [OF rest this] show ?case .
qed

lemma addProtocols_Inr:
  "addProtocols cs ps ns sf au = Inr (ns', sf', au') \<Longrightarrow> distinct (keys au) \<Longrightarrow> p \<in> set ps \<Longrightarrow>
     distinct (filter (\<lambda>k. snd k \<in> set (map methodName (protocolMethods p)))
                 (concat (map classBindings cs)))"
proof (induction ps arbitrary: ns sf au)
  case Nil
  then show ?case by simp
next
  case (Cons q ps)
  from Cons.prems(1) obtain sf1 au1 where
    one: "addStates (map methodName (protocolMethods q)) cs sf au = Inr (sf1, au1)"
    and rest: "addProtocols cs ps (map (\<lambda>m. (methodName m, m)) (protocolMethods q) @ ns) sf1 au1
               = Inr (ns', sf', au')"
    by (cases "addStates (map methodName (protocolMethods q)) cs sf au") (auto simp: Let_def)
  from addStates_Inr [OF one Cons.prems(2)]
  have k1: "keys au1 = keys au @ filter (\<lambda>k. snd k \<in> set (map methodName (protocolMethods q)))
                                  (concat (map classBindings cs))"
    and d1: "distinct (keys au1)"
    by blast+
  show ?case
  proof (cases "p = q")
    case True
    from d1 have "distinct (filter (\<lambda>k. snd k \<in> set (map methodName (protocolMethods q)))
                             (concat (map classBindings cs)))"
      unfolding k1 by simp
    with True show ?thesis by simp
  next
    case False
    with Cons.prems(3) have "p \<in> set ps" by simp
    from Cons.IH [OF rest d1 this] show ?thesis .
  qed
qed

lemma count_twice_not_distinct:
  "2 \<le> count_list xs x \<Longrightarrow> \<not> distinct xs"
  by (induction xs) (auto split: if_splits simp: count_list_0_iff)

lemma count_list_filter: "P x \<Longrightarrow> count_list (filter P xs) x = count_list xs x"
  by (induction xs) auto

text \<open>
  C4: when two output methods of the state declarations bind the same (state, input) pair,
  the input being a method of one of the inputs protocols of the machine, \<^verbatim>\<open>buildClass\<close>
  fails and returns no machine class, so neither handler is registered in place of the
  other. On a builder that was not built before, the failure is the configuration error of
  \<^verbatim>\<open>addTransition\<close>. \<^verbatim>\<open>buildClass\<close> itself makes no check: it passes every binding to
  \<^verbatim>\<open>addTransition\<close>, which is modelled from the spec as rejecting a second binding of a
  pair.
\<close>

theorem duplicate_binding_rejected:
  assumes "2 \<le> count_list (bindings b) (s, i)"
    and "i \<in> set (inputNames b)"
  shows "(\<exists>e. fst (buildClass b) = Inl e)
       \<and> (\<not> built b \<longrightarrow> (\<exists>s' i'. fst (buildClass b) = Inl (ConfigurationError s' i')))"
proof (cases "built b")
  case True
  then show ?thesis by (simp add: buildClass_def)
next
  case False
  let ?cs = "stateClasses b @ [errorState b]"
  let ?ps = "stateProtocol b # privateProtocols b"
  let ?au = "unhandledTransition emptyAutomaton (tyname (stateType (errorState b))) [None]"
  from assms(2) obtain p where p: "p \<in> set ?ps" and i: "i \<in> set (map methodName (protocolMethods p))"
    by (auto simp: inputNames_def)
  have d0: "distinct (keys ?au)"
    by (simp add: keys_def unhandledTransition_def emptyAutomaton_def)
  have "\<exists>e. addProtocols ?cs ?ps [] Map.empty ?au = Inl e"
  proof (cases "addProtocols ?cs ?ps [] Map.empty ?au")
    case (Inl e)
    then show ?thesis by blast
  next
    case (Inr r)
    obtain ns sf au where "r = (ns, sf, au)" by (cases r)
    with Inr have ok: "addProtocols ?cs ?ps [] Map.empty ?au = Inr (ns, sf, au)" by simp
    from addProtocols_Inr [OF ok d0 p]
    have "distinct (filter (\<lambda>k. snd k \<in> set (map methodName (protocolMethods p))) (bindings b))"
      by (simp add: bindings_def)
    moreover from assms(1) i
    have "2 \<le> count_list (filter (\<lambda>k. snd k \<in> set (map methodName (protocolMethods p)))
                             (bindings b)) (s, i)"
      by (simp add: count_list_filter)
    ultimately show ?thesis using count_twice_not_distinct [of "filter (\<lambda>k. snd k \<in> set (map methodName (protocolMethods p))) (bindings b)" "(s, i)"]
      by simp
  qed
  then obtain e where e: "addProtocols ?cs ?ps [] Map.empty ?au = Inl e" ..
  from addProtocols_Inl [OF e] obtain s' i' where "e = ConfigurationError s' i'" by blast
  with e False show ?thesis by (simp add: buildClass_def Let_def)
qed


theorem duplicate_binding_rejected_witness:
  "2 \<le> count_list (bindings exAmbiguousBuilder) (''Idle'', ''start'')
   \<and> ''start'' \<in> set (inputNames exAmbiguousBuilder)
   \<and> \<not> built exAmbiguousBuilder
   \<and> (\<exists>s' i'. fst (buildClass exAmbiguousBuilder) = Inl (ConfigurationError s' i'))
   \<and> fst (buildClass exAmbiguousBuilder) = Inl (ConfigurationError ''Idle'' ''start'')"
proof -
  have h1: "2 \<le> count_list (bindings exAmbiguousBuilder) (''Idle'', ''start'')"
    by (simp add: bindings_def classBindings_def exAmbiguousBuilder_def exBuilder_def
        exIdle_def exActive_def exDone_def exErrorState_def tyIdle_def tyActive_def)
  have h2: "''start'' \<in> set (inputNames exAmbiguousBuilder)"
    by (simp add: inputNames_def exAmbiguousBuilder_def exBuilder_def exStart_def)
  have h3: "\<not> built exAmbiguousBuilder"
    by (simp add: exAmbiguousBuilder_def exBuilder_def)
  from duplicate_binding_rejected [OF h1 h2] h3
  have r1: "\<exists>s' i'. fst (buildClass exAmbiguousBuilder) = Inl (ConfigurationError s' i')"
    by blast
  have r2: "fst (buildClass exAmbiguousBuilder) = Inl (ConfigurationError ''Idle'' ''start'')"
    by (simp add: buildClass_def Let_def exAmbiguousBuilder_def exBuilder_def exIdle_def
        exActive_def exDone_def exErrorState_def stateInputs_def addTransition_def
        unhandledTransition_def emptyAutomaton_def exStart_def exStop_def exFinish_def
        tyIdle_def tyActive_def tyDone_def tyErrorState_def tyInputs_def)
  show ?thesis
    by (intro conjI) (fact h1 h2 h3 r1 r2)+
qed

section \<open>What a dispatch does to the cluster\<close>

text \<open>
  A state object that \<^verbatim>\<open>_buildNewState\<close> returns carries the identity it was given. The
  lemmas after it describe \<^verbatim>\<open>_updateState\<close> and a whole dispatch whatever they return:
  identities only grow, an entry that appears is a newly built object under the name of the
  current state, and an entry that disappears is that of the state left, which is not
  persistent.
\<close>

lemma buildNewState_Inr:
  "buildNewState s m f core a kw cl protos ident = Inr obj \<Longrightarrow>
     \<exists>k. obj = VObj ident (stateType f) k"
  by (auto simp: buildNewState_def Let_def split: sum.splits option.splits)

lemma updateState_built:
  assumes "updateState self old a kw sf m protos = (r, self')"
    and "selfStateCluster self' s = Some obj"
  shows "selfStateCluster self s = Some obj \<or>
           (s = tstate (selfTransitioner self) \<and> selfStateCluster self s = None \<and>
            (\<exists>c k. obj = VObj (nextIdent self) c k))"
proof (cases "selfStateCluster self s = Some obj")
  case True
  then show ?thesis by simp
next
  case False
  with assms have "s = tstate (selfTransitioner self) \<and> selfStateCluster self s = None \<and>
    (\<exists>f. buildNewState VSelf m f (selfStateCore self) a kw (selfStateCluster self) protos
            (nextIdent self) = Inr obj)"
    by (auto simp: updateState_def Let_def split: option.splits sum.splits if_splits)
  then show ?thesis using buildNewState_Inr by blast
qed


lemma updateState_ident:
  assumes "updateState self old a kw sf m protos = (r, self')"
  shows "nextIdent self \<le> nextIdent self'"
    and "selfStateCluster self (tstate (selfTransitioner self)) \<noteq> None \<Longrightarrow>
           nextIdent self' = nextIdent self"
  using assms
  by (auto simp: updateState_def Let_def split: option.splits sum.splits if_splits)

lemma updateState_kept:
  assumes "updateState self old a kw sf m protos = (r, self')"
    and "selfStateCluster self s = Some obj"
  shows "selfStateCluster self' s = Some obj \<or>
           (selfStateCluster self' s = None \<and> old = Some s \<and>
            s \<noteq> tstate (selfTransitioner self) \<and> (\<exists>c. sf s = Some c \<and> \<not> persistState c))"
  using assms
  by (auto simp: updateState_def Let_def split: option.splits sum.splits if_splits)

lemma dispatch_cases:
  assumes "bindableInputMethod m sf protos call self a kw = (r, self')"
  obtains (unchanged) "self' = self"
  | (moved) outs moved where
      "transition (selfTransitioner self) (methodName m) = Inr (outs, moved)"
      "self' = self\<lparr>selfTransitioner := moved\<rparr>"
  | (updated) out moved u where
      "transition (selfTransitioner self) (methodName m) = Inr ([out], moved)"
      "updateState (self\<lparr>selfTransitioner := moved\<rparr>) (Some (tstate (selfTransitioner self)))
         a kw sf (Some m) protos = (u, self')"
proof (cases "selfStateCluster self (tstate (selfTransitioner self))")
  case None
  with assms have "self' = self" by (simp add: bindableInputMethod_def Let_def)
  then show ?thesis by (rule unchanged)
next
  case (Some stateObject)
  show ?thesis
  proof (cases "transition (selfTransitioner self) (methodName m)")
    case (Inl e)
    with Some assms have "self' = self" by (simp add: bindableInputMethod_def Let_def)
    then show ?thesis by (rule unchanged)
  next
    case (Inr res)
    obtain outs mv where res: "res = (outs, mv)" by (cases res)
    show ?thesis
    proof (cases "\<exists>out. outs = [out]")
      case False
      with Some Inr res assms have "self' = self\<lparr>selfTransitioner := mv\<rparr>"
        by (auto simp: bindableInputMethod_def Let_def split: list.splits)
      with Inr res show ?thesis by (auto intro: moved)
    next
      case True
      then obtain out where out: "outs = [out]" ..
      obtain u self2 where
        u: "updateState (self\<lparr>selfTransitioner := mv\<rparr>) (Some (tstate (selfTransitioner self)))
              a kw sf (Some m) protos = (u, self2)"
        by (cases "updateState (self\<lparr>selfTransitioner := mv\<rparr>)
                     (Some (tstate (selfTransitioner self))) a kw sf (Some m) protos")
      with Some Inr res out assms have "self' = self2"
        by (auto simp: bindableInputMethod_def Let_def split: sum.splits option.splits)
      with u Inr res out show ?thesis by (auto intro: updated)
    qed
  qed
qed

lemma dispatch_any:
  assumes "bindableInputMethod m sf protos call self a kw = (r, self')"
  shows "nextIdent self \<le> nextIdent self'"
    and "selfStateCluster self' s = Some obj \<Longrightarrow>
           selfStateCluster self s = Some obj \<or>
           (s = tstate (selfTransitioner self') \<and> selfStateCluster self s = None \<and>
            (\<exists>c k. obj = VObj (nextIdent self) c k))"
    and "selfStateCluster self s = Some obj \<Longrightarrow>
           selfStateCluster self' s = Some obj \<or>
           (selfStateCluster self' s = None \<and> s = tstate (selfTransitioner self) \<and>
            s \<noteq> tstate (selfTransitioner self') \<and> (\<exists>c. sf s = Some c \<and> \<not> persistState c))"
    and "selfStateCluster self (tstate (selfTransitioner self')) \<noteq> None \<Longrightarrow>
           nextIdent self' = nextIdent self"
proof -
  show "nextIdent self \<le> nextIdent self'"
    using assms
  proof (cases rule: dispatch_cases)
    case (updated out moved u)
    from updateState_ident(1) [OF updated(2)] show ?thesis by simp
  qed simp_all
  show "selfStateCluster self s = Some obj \<or>
           (s = tstate (selfTransitioner self') \<and> selfStateCluster self s = None \<and>
            (\<exists>c k. obj = VObj (nextIdent self) c k))"
    if "selfStateCluster self' s = Some obj"
    using assms
  proof (cases rule: dispatch_cases)
    case (updated out moved u)
    from updateState_built [OF updated(2) that] updateState_frame [OF updated(2)]
    show ?thesis by simp
  qed (use that in simp_all)
  show "selfStateCluster self' s = Some obj \<or>
           (selfStateCluster self' s = None \<and> s = tstate (selfTransitioner self) \<and>
            s \<noteq> tstate (selfTransitioner self') \<and> (\<exists>c. sf s = Some c \<and> \<not> persistState c))"
    if "selfStateCluster self s = Some obj"
    using assms
  proof (cases rule: dispatch_cases)
    case (updated out moved u)
    from that have "selfStateCluster (self\<lparr>selfTransitioner := moved\<rparr>) s = Some obj" by simp
    from updateState_kept [OF updated(2) this] updateState_frame [OF updated(2)]
    show ?thesis by auto
  qed (use that in simp_all)
  show "nextIdent self' = nextIdent self"
    if "selfStateCluster self (tstate (selfTransitioner self')) \<noteq> None"
    using assms
  proof (cases rule: dispatch_cases)
    case (updated out moved u)
    from updateState_frame [OF updated(2)] that
    have "selfStateCluster (self\<lparr>selfTransitioner := moved\<rparr>)
            (tstate (selfTransitioner (self\<lparr>selfTransitioner := moved\<rparr>))) \<noteq> None"
      by simp
    from updateState_ident(2) [OF updated(2) this] show ?thesis by simp
  qed simp_all
qed

section \<open>Persistent and evicted state objects\<close>

text \<open>
  Every object in the cluster of an instance was built by a factory call of that instance:
  its identity lies below the identity of the next object. This holds after construction
  and after every sequence of calls.
\<close>

lemma updateState_below:
  assumes "updateState self old a kw sf m protos = (r, self')"
    and "\<forall>s obj. selfStateCluster self s = Some obj \<longrightarrow>
           (\<exists>i c k. obj = VObj i c k \<and> i < nextIdent self)"
  shows "\<forall>s obj. selfStateCluster self' s = Some obj \<longrightarrow>
           (\<exists>i c k. obj = VObj i c k \<and> i < nextIdent self')"
proof (intro allI impI)
  fix s obj
  assume in': "selfStateCluster self' s = Some obj"
  show "\<exists>i c k. obj = VObj i c k \<and> i < nextIdent self'"
  proof (cases "selfStateCluster self s = Some obj")
    case True
    with assms(2) obtain i c k where "obj = VObj i c k" "i < nextIdent self" by blast
    with updateState_ident(1) [OF assms(1)] show ?thesis by auto
  next
    case False
    with updateState_built [OF assms(1) in']
    obtain c k where obj: "obj = VObj (nextIdent self) c k"
      and cur: "s = tstate (selfTransitioner self)" and absent: "selfStateCluster self s = None"
      by blast
    from assms(1) in' cur absent have "nextIdent self' = Suc (nextIdent self)"
      by (auto simp: updateState_def Let_def split: option.splits sum.splits if_splits)
    with obj show ?thesis by simp
  qed
qed

lemma dispatch_below:
  assumes "bindableInputMethod m sf protos call self a kw = (r, self')"
    and "\<forall>s obj. selfStateCluster self s = Some obj \<longrightarrow>
           (\<exists>i c k. obj = VObj i c k \<and> i < nextIdent self)"
  shows "\<forall>s obj. selfStateCluster self' s = Some obj \<longrightarrow>
           (\<exists>i c k. obj = VObj i c k \<and> i < nextIdent self')"
  using assms(1)
proof (cases rule: dispatch_cases)
  case unchanged
  with assms(2) show ?thesis by simp
next
  case (moved outs moved)
  with assms(2) show ?thesis by simp
next
  case (updated out moved u)
  from assms(2)
  have "\<forall>s obj. selfStateCluster (self\<lparr>selfTransitioner := moved\<rparr>) s = Some obj \<longrightarrow>
           (\<exists>i c k. obj = VObj i c k \<and> i < nextIdent (self\<lparr>selfTransitioner := moved\<rparr>))"
    by simp
  from updateState_below [OF updated(2) this] show ?thesis .
qed

lemma run_below:
  "\<forall>s obj. selfStateCluster self s = Some obj \<longrightarrow>
           (\<exists>i c k. obj = VObj i c k \<and> i < nextIdent self) \<Longrightarrow>
   \<forall>s obj. selfStateCluster (runInputs sf protos call calls self) s = Some obj \<longrightarrow>
           (\<exists>i c k. obj = VObj i c k \<and> i < nextIdent (runInputs sf protos call calls self))"
proof (induction calls arbitrary: self)
  case Nil
  then show ?case by simp
next
  case (Cons x calls)
  obtain m a kw where x: "x = (m, a, kw)" by (cases x)
  obtain r self' where d: "bindableInputMethod m sf protos call self a kw = (r, self')"
    by (cases "bindableInputMethod m sf protos call self a kw")
  from Cons.IH [OF dispatch_below [OF d Cons.prems]] x d show ?case by simp
qed

lemma instantiate_below:
  assumes "instantiate cls core = Inr inst"
  shows "\<forall>s obj. selfStateCluster inst s = Some obj \<longrightarrow>
           (\<exists>i c k. obj = VObj i c k \<and> i < nextIdent inst)"
proof -
  let ?init = "\<lparr>selfStateCore = core,
                selfTransitioner = \<lparr>tautomaton = classAutomaton cls,
                                    tstate = tyname (stateType (initialState cls))\<rparr>,
                selfStateCluster = Map.empty, nextIdent = 0\<rparr>"
  from assms obtain u where
    u: "updateState ?init None [] [] (classStateFactories cls) None (classInputProtocols cls)
        = (Inr u, inst)"
    by (auto simp: instantiate_def Let_def split: prod.splits sum.splits)
  have "\<forall>s obj. selfStateCluster ?init s = Some obj \<longrightarrow>
           (\<exists>i c k. obj = VObj i c k \<and> i < nextIdent ?init)"
    by simp
  from updateState_below [OF u this] show ?thesis .
qed

text \<open>
  Over a sequence of calls the entry of a persistent state stays what it is, and an entry
  that was not there before the sequence is an object built during it.
\<close>

lemma run_keeps_persistent:
  "sf s = Some c \<Longrightarrow> persistState c \<Longrightarrow> selfStateCluster self s = Some obj \<Longrightarrow>
     selfStateCluster (runInputs sf protos call calls self) s = Some obj"
proof (induction calls arbitrary: self)
  case Nil
  then show ?case by simp
next
  case (Cons x calls)
  obtain m a kw where x: "x = (m, a, kw)" by (cases x)
  obtain r self' where d: "bindableInputMethod m sf protos call self a kw = (r, self')"
    by (cases "bindableInputMethod m sf protos call self a kw")
  from dispatch_any(3) [OF d Cons.prems(3)] Cons.prems(1,2)
  have "selfStateCluster self' s = Some obj" by auto
  from Cons.IH [OF Cons.prems(1,2) this] x d show ?case by simp
qed

lemma run_fresh:
  "selfStateCluster (runInputs sf protos call calls self) s = Some obj \<Longrightarrow>
     selfStateCluster self s = Some obj \<or> (\<exists>j c k. obj = VObj j c k \<and> nextIdent self \<le> j)"
proof (induction calls arbitrary: self)
  case Nil
  then show ?case by simp
next
  case (Cons x calls)
  obtain m a kw where x: "x = (m, a, kw)" by (cases x)
  obtain r self' where d: "bindableInputMethod m sf protos call self a kw = (r, self')"
    by (cases "bindableInputMethod m sf protos call self a kw")
  from Cons.prems x d
  have "selfStateCluster (runInputs sf protos call calls self') s = Some obj" by simp
  from Cons.IH [OF this]
  consider "selfStateCluster self' s = Some obj"
    | j c k where "obj = VObj j c k" "nextIdent self' \<le> j"
    by blast
  then show ?case
  proof cases
    case 1
    from dispatch_any(2) [OF d 1] show ?thesis by auto
  next
    case 2
    with dispatch_any(1) [OF d] show ?thesis by auto
  qed
qed


text \<open>
  C7: on an instance that the machine class created and that received any sequence of
  calls, let a state have the object \<open>obj\<close> in the cluster. If the state is persistent, the
  cluster holds that same object under its name after any further sequence of calls, and a
  call that enters the state calls no factory (the identity of the next object is
  unchanged). If the state is not persistent and a call leaves it for another state, its
  entry is gone after that call, and whatever object stands under its name after any later
  sequence of calls is a different one, built after the state was left.
\<close>

theorem persistence_law:
  assumes "instantiate cls core = Inr created"
    and "self = runInputs (classStateFactories cls) (classInputProtocols cls) call earlier created"
    and "classStateFactories cls s = Some c"
    and "selfStateCluster self s = Some obj"
  shows "(persistState c \<longrightarrow>
           (\<forall>calls. selfStateCluster
                      (runInputs (classStateFactories cls) (classInputProtocols cls) call calls self)
                      s = Some obj) \<and>
           (\<forall>m a kw.
              tstate (selfTransitioner
                (snd (bindableInputMethod m (classStateFactories cls) (classInputProtocols cls)
                        call self a kw))) = s \<longrightarrow>
              nextIdent (snd (bindableInputMethod m (classStateFactories cls)
                                (classInputProtocols cls) call self a kw)) = nextIdent self))
       \<and> (\<not> persistState c \<longrightarrow>
           (\<forall>m a kw out moved u left.
              tstate (selfTransitioner self) = s \<and>
              transition (selfTransitioner self) (methodName m) = Inr ([out], moved) \<and>
              tstate moved \<noteq> s \<and>
              updateState (self\<lparr>selfTransitioner := moved\<rparr>) (Some s) a kw
                (classStateFactories cls) (Some m) (classInputProtocols cls) = (Inr u, left) \<longrightarrow>
              snd (bindableInputMethod m (classStateFactories cls) (classInputProtocols cls)
                     call self a kw) = left \<and>
              selfStateCluster left s = None \<and>
              (\<forall>calls obj'.
                 selfStateCluster
                   (runInputs (classStateFactories cls) (classInputProtocols cls) call calls left)
                   s = Some obj' \<longrightarrow>
                 obj' \<noteq> obj \<and> (\<exists>j c' k. obj' = VObj j c' k \<and> nextIdent left \<le> j))))"
proof (intro conjI impI allI)
  fix calls
  assume "persistState c"
  from run_keeps_persistent [where sf = "classStateFactories cls", OF assms(3) this assms(4)]
  show "selfStateCluster
          (runInputs (classStateFactories cls) (classInputProtocols cls) call calls self) s
        = Some obj" .
next
  fix m a kw
  let ?d = "bindableInputMethod m (classStateFactories cls) (classInputProtocols cls) call self a kw"
  assume "tstate (selfTransitioner (snd ?d)) = s"
  with assms(4) have "selfStateCluster self (tstate (selfTransitioner (snd ?d))) \<noteq> None"
    by simp
  from dispatch_any(4) [OF prod.collapse [symmetric] this]
  show "nextIdent (snd ?d) = nextIdent self" .
next
  fix m a kw out moved u left
  assume np: "\<not> persistState c"
    and leave: "tstate (selfTransitioner self) = s \<and>
      transition (selfTransitioner self) (methodName m) = Inr ([out], moved) \<and>
      tstate moved \<noteq> s \<and>
      updateState (self\<lparr>selfTransitioner := moved\<rparr>) (Some s) a kw
        (classStateFactories cls) (Some m) (classInputProtocols cls) = (Inr u, left)"
  then have cur: "tstate (selfTransitioner self) = s"
    and look: "transition (selfTransitioner self) (methodName m) = Inr ([out], moved)"
    and other: "tstate moved \<noteq> s"
    and upd: "updateState (self\<lparr>selfTransitioner := moved\<rparr>) (Some s) a kw
                (classStateFactories cls) (Some m) (classInputProtocols cls) = (Inr u, left)"
    by blast+
  obtain f tObj where u: "u = (f, tObj)" by (cases u)
  show dispatched:
    "snd (bindableInputMethod m (classStateFactories cls) (classInputProtocols cls)
            call self a kw) = left"
    using assms(4) cur look upd
    by (simp add: bindableInputMethod_def Let_def split: option.splits)
  from updateState_cluster(3) [OF upd [unfolded u] refl] other assms(3) np
  show gone: "selfStateCluster left s = None"
    by auto
  fix calls obj'
  assume later: "selfStateCluster
                   (runInputs (classStateFactories cls) (classInputProtocols cls) call calls left)
                   s = Some obj'"
  from run_fresh [OF later] gone
  obtain j c' k where obj': "obj' = VObj j c' k" and j: "nextIdent left \<le> j"
    by auto
  from run_below [OF instantiate_below [OF assms(1)]] assms(2,4)
  obtain i ci ki where obj: "obj = VObj i ci ki" and i: "i < nextIdent self"
    by blast
  from updateState_ident(1) [OF upd] have "nextIdent self \<le> nextIdent left" by simp
  with i j obj obj' show "obj' \<noteq> obj" by simp
  from obj' j show "\<exists>j c' k. obj' = VObj j c' k \<and> nextIdent left \<le> j" by blast
qed


text \<open>The scenario start, stop, start on the example machine.\<close>

lemma instantiate_example:
  "instantiate exClass exCore = Inr (exInstance ''Idle'' [''Idle'' \<mapsto> idleObject] 1)"
  by (simp add: instantiate_def exClass_def dispatch_defs example_defs)

lemma stop_in_active_example:
  "bindableInputMethod exStop exFactories [tyInputs] exCall
     (exInstance ''Active'' [''Idle'' \<mapsto> idleObject, ''Active'' \<mapsto> activeObject 1] 2) [] []
   = (Inr (VStr ''Active.halt''),
      exInstance ''Idle''
        ([''Idle'' \<mapsto> idleObject, ''Active'' \<mapsto> activeObject 1](''Active'' := None)) 2)"
  by (simp add: dispatch_defs example_defs)

lemma leave_active_example:
  "updateState (exInstance ''Idle'' [''Idle'' \<mapsto> idleObject, ''Active'' \<mapsto> activeObject 1] 2)
     (Some ''Active'') [] [] exFactories (Some exStop) [tyInputs]
   = (Inr (exIdle, idleObject),
      exInstance ''Idle''
        ([''Idle'' \<mapsto> idleObject, ''Active'' \<mapsto> activeObject 1](''Active'' := None)) 2)"
  by (simp add: dispatch_defs example_defs)

lemma start_again_example:
  "bindableInputMethod exStart exFactories [tyInputs] exCall
     (exInstance ''Idle''
        ([''Idle'' \<mapsto> idleObject, ''Active'' \<mapsto> activeObject 1](''Active'' := None)) 2) [] []
   = (Inr (VStr ''Idle.begin''),
      exInstance ''Active'' [''Idle'' \<mapsto> idleObject, ''Active'' \<mapsto> activeObject 2] 3)"
  by (simp add: dispatch_defs example_defs)

theorem persistence_law_witness:
  "instantiate exClass exCore = Inr (exInstance ''Idle'' [''Idle'' \<mapsto> idleObject] 1)
   \<and> classStateFactories exClass ''Idle'' = Some exIdle \<and> persistState exIdle
   \<and> selfStateCluster (exInstance ''Idle'' [''Idle'' \<mapsto> idleObject] 1) ''Idle'' = Some idleObject
   \<and> selfStateCluster
        (runInputs exFactories [tyInputs] exCall
           [(exStart, [], []), (exStop, [], []), (exStart, [], [])]
           (exInstance ''Idle'' [''Idle'' \<mapsto> idleObject] 1)) ''Idle'' = Some idleObject
   \<and> classStateFactories exClass ''Active'' = Some exActive \<and> \<not> persistState exActive
   \<and> selfStateCluster
        (runInputs exFactories [tyInputs] exCall [(exStart, [], [])]
           (exInstance ''Idle'' [''Idle'' \<mapsto> idleObject] 1)) ''Active'' = Some (activeObject 1)
   \<and> selfStateCluster
        (runInputs exFactories [tyInputs] exCall [(exStart, [], []), (exStop, [], [])]
           (exInstance ''Idle'' [''Idle'' \<mapsto> idleObject] 1)) ''Active'' = None
   \<and> selfStateCluster
        (runInputs exFactories [tyInputs] exCall
           [(exStart, [], []), (exStop, [], []), (exStart, [], [])]
           (exInstance ''Idle'' [''Idle'' \<mapsto> idleObject] 1)) ''Active'' = Some (activeObject 2)
   \<and> activeObject 2 \<noteq> activeObject 1"
proof -
  let ?i0 = "exInstance ''Idle'' [''Idle'' \<mapsto> idleObject] 1"
  let ?i1 = "exInstance ''Active'' [''Idle'' \<mapsto> idleObject, ''Active'' \<mapsto> activeObject 1] 2"
  let ?i2 = "exInstance ''Idle''
               ([''Idle'' \<mapsto> idleObject, ''Active'' \<mapsto> activeObject 1](''Active'' := None)) 2"
  let ?i3 = "exInstance ''Active'' [''Idle'' \<mapsto> idleObject, ''Active'' \<mapsto> activeObject 2] 3"
  let ?run = "runInputs exFactories [tyInputs] exCall"
  note e0 = instantiate_example
  have sf: "classStateFactories exClass = exFactories"
    and ps: "classInputProtocols exClass = [tyInputs]"
    by (simp_all add: exClass_def)
  have run0: "?i0 = ?run [] ?i0" by simp
  have run1: "?run [(exStart, [], [])] ?i0 = ?i1"
    by (simp only: runInputs.simps start_in_idle_example snd_conv)
  have run2: "?run [(exStart, [], []), (exStop, [], [])] ?i0 = ?i2"
    by (simp only: runInputs.simps start_in_idle_example stop_in_active_example snd_conv)
  have run3: "?run [(exStart, [], []), (exStop, [], []), (exStart, [], [])] ?i0 = ?i3"
    by (simp only: runInputs.simps start_in_idle_example stop_in_active_example
        start_again_example snd_conv)
  have later: "?run [(exStart, [], [])] ?i2 = ?i3"
    by (simp only: runInputs.simps start_again_example snd_conv)
  have idle: "classStateFactories exClass ''Idle'' = Some exIdle" "persistState exIdle"
    "selfStateCluster ?i0 ''Idle'' = Some idleObject"
    by (simp_all add: exClass_def exFactories_def exIdle_def exInstance_def)
  have active: "classStateFactories exClass ''Active'' = Some exActive" "\<not> persistState exActive"
    "selfStateCluster ?i1 ''Active'' = Some (activeObject 1)"
    by (simp_all add: exClass_def exFactories_def exActive_def exInstance_def)
  from persistence_law
         [where call = exCall and earlier = "[]" and self = "?i0",
          OF e0 _ idle(1) idle(3), unfolded sf ps, OF run0] idle(2)
  have kept: "selfStateCluster
                (?run [(exStart, [], []), (exStop, [], []), (exStart, [], [])] ?i0) ''Idle''
              = Some idleObject"
    by blast
  have cur: "tstate (selfTransitioner ?i1) = ''Active''"
    and look: "transition (selfTransitioner ?i1) (methodName exStop)
               = Inr ([Some ''halt''], \<lparr>tautomaton = exAutomaton, tstate = ''Idle''\<rparr>)"
    and other: "tstate \<lparr>tautomaton = exAutomaton, tstate = ''Idle''\<rparr> \<noteq> ''Active''"
    and moved: "?i1\<lparr>selfTransitioner := \<lparr>tautomaton = exAutomaton, tstate = ''Idle''\<rparr>\<rparr>
                = exInstance ''Idle'' [''Idle'' \<mapsto> idleObject, ''Active'' \<mapsto> activeObject 1] 2"
    by (simp_all add: exInstance_def transition_def outputForInput_def exAutomaton_def exStop_def)
  have upd: "updateState (?i1\<lparr>selfTransitioner := \<lparr>tautomaton = exAutomaton, tstate = ''Idle''\<rparr>\<rparr>)
               (Some ''Active'') [] [] exFactories (Some exStop) [tyInputs]
             = (Inr (exIdle, idleObject), ?i2)"
    unfolding moved by (rule leave_active_example)
  have i3: "selfStateCluster (?run [(exStart, [], [])] ?i2) ''Active'' = Some (activeObject 2)"
    unfolding later by (simp add: exInstance_def)
  from persistence_law
         [where call = exCall and earlier = "[(exStart, [], [])]" and self = "?i1",
          OF e0 _ active(1) active(3), unfolded sf ps, OF run1 [symmetric]] active(2)
  have "\<forall>m a kw out moved u left.
          tstate (selfTransitioner ?i1) = ''Active'' \<and>
          transition (selfTransitioner ?i1) (methodName m) = Inr ([out], moved) \<and>
          tstate moved \<noteq> ''Active'' \<and>
          updateState (?i1\<lparr>selfTransitioner := moved\<rparr>) (Some ''Active'') a kw exFactories
            (Some m) [tyInputs] = (Inr u, left) \<longrightarrow>
          snd (bindableInputMethod m exFactories [tyInputs] exCall ?i1 a kw) = left \<and>
          selfStateCluster left ''Active'' = None \<and>
          (\<forall>calls obj'. selfStateCluster (?run calls left) ''Active'' = Some obj' \<longrightarrow>
               obj' \<noteq> activeObject 1 \<and> (\<exists>j c' k. obj' = VObj j c' k \<and> nextIdent left \<le> j))"
    by blast
  from this [rule_format, OF conjI [OF cur conjI [OF look conjI [OF other upd]]]]
  have gone: "selfStateCluster ?i2 ''Active'' = None"
    and fresh: "\<And>calls obj'. selfStateCluster (?run calls ?i2) ''Active'' = Some obj' \<Longrightarrow>
                  obj' \<noteq> activeObject 1"
    by blast+
  from fresh [OF i3] have differ: "activeObject 2 \<noteq> activeObject 1" .
  have a1: "selfStateCluster (?run [(exStart, [], [])] ?i0) ''Active'' = Some (activeObject 1)"
    unfolding run1 by (rule active(3))
  have a2: "selfStateCluster (?run [(exStart, [], []), (exStop, [], [])] ?i0) ''Active'' = None"
    unfolding run2 by (rule gone)
  have a3: "selfStateCluster
              (?run [(exStart, [], []), (exStop, [], []), (exStart, [], [])] ?i0) ''Active''
            = Some (activeObject 2)"
    unfolding run3 by (simp add: exInstance_def)
  show ?thesis
    by (intro conjI) (fact e0 idle active(1,2) kept a1 a2 a3 differ)+
qed

section \<open>Eviction on leaving a state that is not persistent\<close>

text \<open>\<open>finish\<close> called in \<open>Active\<close> with an argument that the input does not take.\<close>

lemma finish_with_argument_example:
  "bindableInputMethod exFinish exFactories [tyInputs] exCall
     (exInstance ''Active'' [''Idle'' \<mapsto> idleObject, ''Active'' \<mapsto> activeObject 1] 2)
     [VInt 1] []
   = (Inl (TypeError ''too many positional arguments''),
      exInstance ''Done'' [''Idle'' \<mapsto> idleObject, ''Active'' \<mapsto> activeObject 1] 2)"
  by (simp add: dispatch_defs example_defs)

text \<open>
  C5, as stated, fails: a transition that leaves a state that is not persistent does not
  always evict it. \<open>finish\<close> called in \<open>Active\<close> with one argument too many moves the cursor
  to \<open>Done\<close>; building the \<open>Done\<close> object raises \<^verbatim>\<open>TypeError\<close>, and the call ends with the
  cursor on \<open>Done\<close>, no entry for \<open>Done\<close>, and the entry of \<open>Active\<close> still in the cluster.
\<close>

theorem eviction_on_every_exit_counterexample:
  "exFactories ''Active'' = Some exActive \<and> \<not> persistState exActive
   \<and> transition (selfTransitioner
        (exInstance ''Active'' [''Idle'' \<mapsto> idleObject, ''Active'' \<mapsto> activeObject 1] 2))
        (methodName exFinish)
      = Inr ([Some ''complete''], \<lparr>tautomaton = exAutomaton, tstate = ''Done''\<rparr>)
   \<and> bindableInputMethod exFinish exFactories [tyInputs] exCall
        (exInstance ''Active'' [''Idle'' \<mapsto> idleObject, ''Active'' \<mapsto> activeObject 1] 2)
        [VInt 1] []
      = (Inl (TypeError ''too many positional arguments''),
         exInstance ''Done'' [''Idle'' \<mapsto> idleObject, ''Active'' \<mapsto> activeObject 1] 2)
   \<and> tstate (selfTransitioner
        (exInstance ''Done'' [''Idle'' \<mapsto> idleObject, ''Active'' \<mapsto> activeObject 1] 2))
      = ''Done''
   \<and> selfStateCluster
        (exInstance ''Done'' [''Idle'' \<mapsto> idleObject, ''Active'' \<mapsto> activeObject 1] 2)
        ''Active'' = Some (activeObject 1)
   \<and> selfStateCluster
        (exInstance ''Done'' [''Idle'' \<mapsto> idleObject, ''Active'' \<mapsto> activeObject 1] 2)
        ''Done'' = None"
proof -
  note run = finish_with_argument_example
  have a: "exFactories ''Active'' = Some exActive" and b: "\<not> persistState exActive"
    by (simp_all add: exFactories_def exActive_def)
  have c: "transition (selfTransitioner
        (exInstance ''Active'' [''Idle'' \<mapsto> idleObject, ''Active'' \<mapsto> activeObject 1] 2))
        (methodName exFinish)
      = Inr ([Some ''complete''], \<lparr>tautomaton = exAutomaton, tstate = ''Done''\<rparr>)"
    by (simp add: transition_def outputForInput_def exInstance_def exAutomaton_def exFinish_def)
  have d: "tstate (selfTransitioner
        (exInstance ''Done'' [''Idle'' \<mapsto> idleObject, ''Active'' \<mapsto> activeObject 1] 2))
      = ''Done''"
    and e: "selfStateCluster
        (exInstance ''Done'' [''Idle'' \<mapsto> idleObject, ''Active'' \<mapsto> activeObject 1] 2)
        ''Active'' = Some (activeObject 1)"
    and f: "selfStateCluster
        (exInstance ''Done'' [''Idle'' \<mapsto> idleObject, ''Active'' \<mapsto> activeObject 1] 2)
        ''Done'' = None"
    by (simp_all add: exInstance_def)
  show ?thesis
    by (intro conjI) (fact a b c run d e f)+
qed

text \<open>
  C5, amended: let a call leave the state \<open>S\<close>, which is not persistent, for another state
  \<open>T\<close>. When \<^verbatim>\<open>_updateState\<close> succeeds (the object of \<open>T\<close> was in the cluster or was built),
  the entry of \<open>S\<close> is removed, the entry of \<open>T\<close> is there, the cursor is on \<open>T\<close> and no other
  entry has changed; the object of \<open>T\<close> either was in the cluster already or was built by
  \<^verbatim>\<open>_buildNewState\<close> against the cluster that still holds the object of \<open>S\<close>, so that a
  constructor parameter resolved by the sibling rule under the name \<open>S\<close> receives that
  object. When \<^verbatim>\<open>_updateState\<close> fails, the cluster is unchanged: the entry of \<open>S\<close> is never
  removed before the object of \<open>T\<close> exists, and it stays although the cursor has left \<open>S\<close>.
  After a call that leaves the cursor on \<open>S\<close>, the entry of \<open>S\<close> is still its object.
\<close>

theorem eviction_follows_construction:
  assumes "tstate (selfTransitioner self) = S"
    and "selfStateCluster self S = Some sObj"
    and "sf S = Some sClass" and "\<not> persistState sClass"
    and "transition (selfTransitioner self) (methodName m) = Inr ([out], moved)"
    and "tstate moved = T" and "T \<noteq> S"
    and "updateState (self\<lparr>selfTransitioner := moved\<rparr>) (Some S) a kw sf (Some m) protos
           = (u, self')"
  shows "snd (bindableInputMethod m sf protos call self a kw) = self'
       \<and> tstate (selfTransitioner self') = T
       \<and> (\<forall>tClass tObj. u = Inr (tClass, tObj) \<longrightarrow>
             selfStateCluster self' S = None \<and>
             selfStateCluster self' T = Some tObj \<and>
             (\<forall>s. s \<noteq> S \<and> s \<noteq> T \<longrightarrow> selfStateCluster self' s = selfStateCluster self s) \<and>
             (selfStateCluster self T = Some tObj \<or>
              selfStateCluster self T = None \<and>
              buildNewState VSelf (Some m) tClass (selfStateCore self) a kw
                (selfStateCluster self) protos (nextIdent self) = Inr tObj))
       \<and> (\<forall>e. u = Inl e \<longrightarrow> selfStateCluster self' = selfStateCluster self)
       \<and> (\<forall>n ty passed.
             \<not> transitionSupplies (Some (methodSignature m)) n (Class ty) \<and>
             getattrOrNone (selfStateCore self) n = VNone \<and> tyname ty = S \<longrightarrow>
             magicValueForParameter n (Class ty) (Some (methodSignature m)) passed
               (selfStateCore self) (selfStateCluster self) protos VSelf = Inr sObj)
       \<and> (\<forall>m' a' kw'.
             tstate (selfTransitioner (snd (bindableInputMethod m' sf protos call self a' kw'))) = S
             \<longrightarrow> selfStateCluster (snd (bindableInputMethod m' sf protos call self a' kw')) S
                 = Some sObj)"
proof (intro conjI allI impI)
  let ?moved = "self\<lparr>selfTransitioner := moved\<rparr>"
  note upd = assms(8)
  have cur: "tstate (selfTransitioner ?moved) = T" using assms(6) by simp
  show "snd (bindableInputMethod m sf protos call self a kw) = self'"
    using assms(1,2,5,8)
    by (cases u) (simp_all add: bindableInputMethod_def Let_def split: option.splits)
  from updateState_frame [OF upd] assms(6)
  show "tstate (selfTransitioner self') = T" by simp
  {
    fix tClass tObj
    assume u: "u = Inr (tClass, tObj)"
    note ok = upd [unfolded u]
    from updateState_cluster(3) [OF ok refl] cur assms(3,4,7)
    show "selfStateCluster self' S = None" by auto
    from updateState_cluster(1) [OF ok] cur
    show "selfStateCluster self' T = Some tObj" by simp
    from updateState_Inr(2) [OF ok] cur
    show "selfStateCluster self T = Some tObj \<or>
          selfStateCluster self T = None \<and>
          buildNewState VSelf (Some m) tClass (selfStateCore self) a kw
            (selfStateCluster self) protos (nextIdent self) = Inr tObj"
      by auto
    fix s
    assume "s \<noteq> S \<and> s \<noteq> T"
    with updateState_cluster(2) [OF ok, of s] cur
    show "selfStateCluster self' s = selfStateCluster self s" by auto
  }
  {
    fix e
    assume "u = Inl e"
    with upd assms(2,3,6,7)
    show "selfStateCluster self' = selfStateCluster self"
      by (auto simp: updateState_def Let_def split: option.splits sum.splits if_splits)
  }
  {
    fix n ty passed
    assume "\<not> transitionSupplies (Some (methodSignature m)) n (Class ty) \<and>
            getattrOrNone (selfStateCore self) n = VNone \<and> tyname ty = S"
    with assms(2)
    show "magicValueForParameter n (Class ty) (Some (methodSignature m)) passed
            (selfStateCore self) (selfStateCluster self) protos VSelf = Inr sObj"
      by (simp add: magic_cases)
  }
  {
    fix m' a' kw'
    let ?d = "bindableInputMethod m' sf protos call self a' kw'"
    assume stay: "tstate (selfTransitioner (snd ?d)) = S"
    from dispatch_any(3) [OF prod.collapse [symmetric] assms(2), of m' sf protos call a' kw'] stay
    show "selfStateCluster (snd ?d) S = Some sObj" by auto
  }
qed


text \<open>\<open>finish\<close> in \<open>Active\<close> builds \<open>Done\<close> from the \<open>Active\<close> object and evicts \<open>Active\<close>.\<close>

lemma enter_done_example:
  "updateState (exInstance ''Done'' [''Idle'' \<mapsto> idleObject, ''Active'' \<mapsto> activeObject 1] 2)
     (Some ''Active'') [] [] exFactories (Some exFinish) [tyInputs]
   = (Inr (exDone, VObj 2 tyDone [(''active'', activeObject 1)]),
      exInstance ''Done''
        ([''Idle'' \<mapsto> idleObject, ''Active'' \<mapsto> activeObject 1,
          ''Done'' \<mapsto> VObj 2 tyDone [(''active'', activeObject 1)]](''Active'' := None)) 3)"
  by (simp add: dispatch_defs example_defs)

theorem eviction_follows_construction_witness:
  "tstate (selfTransitioner
     (exInstance ''Active'' [''Idle'' \<mapsto> idleObject, ''Active'' \<mapsto> activeObject 1] 2))
     = ''Active''
   \<and> selfStateCluster
        (exInstance ''Active'' [''Idle'' \<mapsto> idleObject, ''Active'' \<mapsto> activeObject 1] 2)
        ''Active'' = Some (activeObject 1)
   \<and> exFactories ''Active'' = Some exActive \<and> \<not> persistState exActive
   \<and> transition (selfTransitioner
        (exInstance ''Active'' [''Idle'' \<mapsto> idleObject, ''Active'' \<mapsto> activeObject 1] 2))
        (methodName exFinish)
      = Inr ([Some ''complete''], \<lparr>tautomaton = exAutomaton, tstate = ''Done''\<rparr>)
   \<and> ''Done'' \<noteq> ''Active''
   \<and> updateState (exInstance ''Done'' [''Idle'' \<mapsto> idleObject, ''Active'' \<mapsto> activeObject 1] 2)
        (Some ''Active'') [] [] exFactories (Some exFinish) [tyInputs]
      = (Inr (exDone, VObj 2 tyDone [(''active'', activeObject 1)]),
         exInstance ''Done''
           ([''Idle'' \<mapsto> idleObject, ''Active'' \<mapsto> activeObject 1,
             ''Done'' \<mapsto> VObj 2 tyDone [(''active'', activeObject 1)]](''Active'' := None)) 3)
   \<and> selfStateCluster
        (snd (bindableInputMethod exFinish exFactories [tyInputs] exCall
                (exInstance ''Active'' [''Idle'' \<mapsto> idleObject, ''Active'' \<mapsto> activeObject 1] 2)
                [] [])) ''Active'' = None
   \<and> selfStateCluster
        (snd (bindableInputMethod exFinish exFactories [tyInputs] exCall
                (exInstance ''Active'' [''Idle'' \<mapsto> idleObject, ''Active'' \<mapsto> activeObject 1] 2)
                [] [])) ''Done'' = Some (VObj 2 tyDone [(''active'', activeObject 1)])"
proof -
  let ?i1 = "exInstance ''Active'' [''Idle'' \<mapsto> idleObject, ''Active'' \<mapsto> activeObject 1] 2"
  let ?moved = "\<lparr>tautomaton = exAutomaton, tstate = ''Done''\<rparr>"
  let ?done = "VObj 2 tyDone [(''active'', activeObject 1)]"
  let ?i2 = "exInstance ''Done''
               ([''Idle'' \<mapsto> idleObject, ''Active'' \<mapsto> activeObject 1,
                 ''Done'' \<mapsto> ?done](''Active'' := None)) 3"
  have h1: "tstate (selfTransitioner ?i1) = ''Active''"
    and h2: "selfStateCluster ?i1 ''Active'' = Some (activeObject 1)"
    and h3: "exFactories ''Active'' = Some exActive"
    and h4: "\<not> persistState exActive"
    and h6: "tstate ?moved = ''Done''"
    and h7: "''Done'' \<noteq> ''Active''"
    by (simp_all add: exInstance_def exFactories_def exActive_def)
  have h5: "transition (selfTransitioner ?i1) (methodName exFinish)
            = Inr ([Some ''complete''], ?moved)"
    by (simp add: transition_def outputForInput_def exInstance_def exAutomaton_def exFinish_def)
  have moved: "?i1\<lparr>selfTransitioner := ?moved\<rparr>
               = exInstance ''Done'' [''Idle'' \<mapsto> idleObject, ''Active'' \<mapsto> activeObject 1] 2"
    by (simp add: exInstance_def)
  note ex = enter_done_example
  have h8: "updateState (?i1\<lparr>selfTransitioner := ?moved\<rparr>) (Some ''Active'') [] [] exFactories
              (Some exFinish) [tyInputs] = (Inr (exDone, ?done), ?i2)"
    unfolding moved by (rule ex)
  note t = eviction_follows_construction [OF h1 h2 h3 h4 h5 h6 h7 h8, of exCall]
  from t have d: "snd (bindableInputMethod exFinish exFactories [tyInputs] exCall ?i1 [] []) = ?i2"
    by (rule conjunct1)
  from t have r: "selfStateCluster ?i2 ''Active'' = None \<and> selfStateCluster ?i2 ''Done'' = Some ?done"
    by blast
  from r have r1: "selfStateCluster
        (snd (bindableInputMethod exFinish exFactories [tyInputs] exCall ?i1 [] [])) ''Active'' = None"
    and r2: "selfStateCluster
        (snd (bindableInputMethod exFinish exFactories [tyInputs] exCall ?i1 [] [])) ''Done''
        = Some ?done"
    unfolding d by blast+
  show ?thesis
    by (intro conjI) (fact h1 h2 h3 h4 h5 h7 ex r1 r2)+
qed

section \<open>The cluster invariant\<close>

text \<open>A call of \<open>start\<close> with an argument that the input does not take.\<close>

lemma start_with_argument_example:
  "bindableInputMethod exStart exFactories [tyInputs] exCall
     (exInstance ''Idle'' [''Idle'' \<mapsto> idleObject] 1) [VInt 1] []
   = (Inl (TypeError ''too many positional arguments''),
      exInstance ''Active'' [''Idle'' \<mapsto> idleObject] 1)"
  by (simp add: dispatch_defs example_defs)

text \<open>
  C6, as stated, fails: a call whose transition is taken but whose target state object
  cannot be built leaves the cursor on the target state and the cluster without an entry
  for it. On a freshly constructed instance of the example, \<open>start\<close> called with one
  argument too many moves the cursor to \<open>Active\<close> and raises \<^verbatim>\<open>TypeError\<close> from
  \<^verbatim>\<open>Signature.bind\<close> inside \<^verbatim>\<open>_buildNewState\<close>.
\<close>

theorem cluster_invariant_counterexample:
  "instantiate exClass exCore = Inr (exInstance ''Idle'' [''Idle'' \<mapsto> idleObject] 1)
   \<and> clusterInvariant exFactories (exInstance ''Idle'' [''Idle'' \<mapsto> idleObject] 1)
   \<and> bindableInputMethod exStart exFactories [tyInputs] exCall
        (exInstance ''Idle'' [''Idle'' \<mapsto> idleObject] 1) [VInt 1] []
      = (Inl (TypeError ''too many positional arguments''),
         exInstance ''Active'' [''Idle'' \<mapsto> idleObject] 1)
   \<and> tstate (selfTransitioner (exInstance ''Active'' [''Idle'' \<mapsto> idleObject] 1)) = ''Active''
   \<and> selfStateCluster (exInstance ''Active'' [''Idle'' \<mapsto> idleObject] 1) ''Active'' = None
   \<and> \<not> clusterInvariant exFactories (exInstance ''Active'' [''Idle'' \<mapsto> idleObject] 1)"
proof -
  note e0 = instantiate_example
  note e1 = start_with_argument_example
  have a: "clusterInvariant exFactories (exInstance ''Idle'' [''Idle'' \<mapsto> idleObject] 1)"
    by (simp add: clusterInvariant_def exInstance_def)
  have b: "tstate (selfTransitioner (exInstance ''Active'' [''Idle'' \<mapsto> idleObject] 1)) = ''Active''"
    and c: "selfStateCluster (exInstance ''Active'' [''Idle'' \<mapsto> idleObject] 1) ''Active'' = None"
    and d: "\<not> clusterInvariant exFactories (exInstance ''Active'' [''Idle'' \<mapsto> idleObject] 1)"
    by (simp_all add: clusterInvariant_def exInstance_def)
  show ?thesis
    by (intro conjI) (fact e0 e1 a b c d)+
qed

text \<open>
  C6, amended: the invariant holds immediately after a machine instance is constructed, and
  every call in which \<^verbatim>\<open>_updateState\<close> succeeds (the object of the state entered was in the
  cluster or was built; the call then returns the result of the output method, or raises
  what that method raises, or reports an unhandled input) preserves it.
\<close>

theorem cluster_invariant_after_update:
  "(instantiate cls core = Inr created \<longrightarrow> clusterInvariant (classStateFactories cls) created)
   \<and> (clusterInvariant sf self \<and>
      transition (selfTransitioner self) (methodName m) = Inr ([out], moved) \<and>
      updateState (self\<lparr>selfTransitioner := moved\<rparr>) (Some (tstate (selfTransitioner self)))
        a kw sf (Some m) protos = (Inr u, self') \<longrightarrow>
      snd (bindableInputMethod m sf protos call self a kw) = self' \<and>
      clusterInvariant sf self')"
proof (intro conjI impI)
  assume inst: "instantiate cls core = Inr created"
  let ?init = "\<lparr>selfStateCore = core,
                selfTransitioner = \<lparr>tautomaton = classAutomaton cls,
                                    tstate = tyname (stateType (initialState cls))\<rparr>,
                selfStateCluster = Map.empty, nextIdent = 0\<rparr>"
  from inst obtain f obj where
    u: "updateState ?init None [] [] (classStateFactories cls) None (classInputProtocols cls)
        = (Inr (f, obj), created)"
    by (auto simp: instantiate_def Let_def split: prod.splits sum.splits)
  from updateState_frame [OF u]
  have cur: "tstate (selfTransitioner created) = tyname (stateType (initialState cls))"
    by simp
  from updateState_cluster(1) [OF u] cur
  have here: "selfStateCluster created (tstate (selfTransitioner created)) \<noteq> None" by simp
  have "selfStateCluster created s = None" if "s \<noteq> tstate (selfTransitioner created)" for s
    using updateState_cluster(2) [OF u, of s] that cur by simp
  with here show "clusterInvariant (classStateFactories cls) created"
    by (auto simp: clusterInvariant_def)
next
  assume h: "clusterInvariant sf self \<and>
      transition (selfTransitioner self) (methodName m) = Inr ([out], moved) \<and>
      updateState (self\<lparr>selfTransitioner := moved\<rparr>) (Some (tstate (selfTransitioner self)))
        a kw sf (Some m) protos = (Inr u, self')"
  then have inv: "clusterInvariant sf self"
    and look: "transition (selfTransitioner self) (methodName m) = Inr ([out], moved)"
    and upd: "updateState (self\<lparr>selfTransitioner := moved\<rparr>) (Some (tstate (selfTransitioner self)))
                a kw sf (Some m) protos = (Inr u, self')"
    by blast+
  obtain f obj where u: "u = (f, obj)" by (cases u)
  note ok = upd [unfolded u]
  let ?old = "tstate (selfTransitioner self)"
  let ?new = "tstate moved"
  from inv obtain stateObject where old: "selfStateCluster self ?old = Some stateObject"
    by (auto simp: clusterInvariant_def)
  show "snd (bindableInputMethod m sf protos call self a kw) = self'"
    using old look upd by (simp add: bindableInputMethod_def Let_def split: option.splits)
  from updateState_frame [OF ok] have cur: "tstate (selfTransitioner self') = ?new" by simp
  from updateState_cluster(1) [OF ok]
  have here: "selfStateCluster self' (tstate (selfTransitioner self')) \<noteq> None"
    unfolding cur by simp
  have others: "case sf s of None \<Rightarrow> True | Some c \<Rightarrow> persistState c"
    if s: "s \<in> dom (selfStateCluster self')" "s \<noteq> tstate (selfTransitioner self')" for s
  proof (cases "s = ?old")
    case True
    with s cur have "?old \<noteq> tstate (selfTransitioner (self\<lparr>selfTransitioner := moved\<rparr>))"
      by simp
    from updateState_cluster(3) [OF ok refl this] s(1) True
    show ?thesis by (auto split: if_splits)
  next
    case False
    with s cur updateState_cluster(2) [OF ok, of s]
    have "selfStateCluster self' s = selfStateCluster self s" by simp
    with s(1) have "s \<in> dom (selfStateCluster self)" by (simp add: dom_def)
    with inv False show ?thesis by (simp add: clusterInvariant_def)
  qed
  from here others show "clusterInvariant sf self'"
    unfolding clusterInvariant_def by blast
qed

theorem cluster_invariant_after_update_witness:
  "instantiate exClass exCore = Inr (exInstance ''Idle'' [''Idle'' \<mapsto> idleObject] 1)
   \<and> clusterInvariant (classStateFactories exClass)
        (exInstance ''Idle'' [''Idle'' \<mapsto> idleObject] 1)
   \<and> transition (selfTransitioner
        (exInstance ''Active'' [''Idle'' \<mapsto> idleObject, ''Active'' \<mapsto> activeObject 1] 2))
        (methodName exFinish)
      = Inr ([Some ''complete''], \<lparr>tautomaton = exAutomaton, tstate = ''Done''\<rparr>)
   \<and> clusterInvariant exFactories
        (exInstance ''Active'' [''Idle'' \<mapsto> idleObject, ''Active'' \<mapsto> activeObject 1] 2)
   \<and> updateState (exInstance ''Done'' [''Idle'' \<mapsto> idleObject, ''Active'' \<mapsto> activeObject 1] 2)
        (Some ''Active'') [] [] exFactories (Some exFinish) [tyInputs]
      = (Inr (exDone, VObj 2 tyDone [(''active'', activeObject 1)]),
         exInstance ''Done''
           ([''Idle'' \<mapsto> idleObject, ''Active'' \<mapsto> activeObject 1,
             ''Done'' \<mapsto> VObj 2 tyDone [(''active'', activeObject 1)]](''Active'' := None)) 3)
   \<and> clusterInvariant exFactories
        (exInstance ''Done''
           ([''Idle'' \<mapsto> idleObject, ''Active'' \<mapsto> activeObject 1,
             ''Done'' \<mapsto> VObj 2 tyDone [(''active'', activeObject 1)]](''Active'' := None)) 3)"
proof -
  let ?i0 = "exInstance ''Idle'' [''Idle'' \<mapsto> idleObject] 1"
  let ?i1 = "exInstance ''Active'' [''Idle'' \<mapsto> idleObject, ''Active'' \<mapsto> activeObject 1] 2"
  let ?moved = "\<lparr>tautomaton = exAutomaton, tstate = ''Done''\<rparr>"
  let ?done = "VObj 2 tyDone [(''active'', activeObject 1)]"
  let ?i2 = "exInstance ''Done''
               ([''Idle'' \<mapsto> idleObject, ''Active'' \<mapsto> activeObject 1,
                 ''Done'' \<mapsto> ?done](''Active'' := None)) 3"
  note e0 = instantiate_example
  note ex = enter_done_example
  have inv1: "clusterInvariant exFactories ?i1"
    by (simp add: clusterInvariant_def exInstance_def exFactories_def exIdle_def)
  have look: "transition (selfTransitioner ?i1) (methodName exFinish)
              = Inr ([Some ''complete''], ?moved)"
    by (simp add: transition_def outputForInput_def exInstance_def exAutomaton_def exFinish_def)
  have moved: "?i1\<lparr>selfTransitioner := ?moved\<rparr>
               = exInstance ''Done'' [''Idle'' \<mapsto> idleObject, ''Active'' \<mapsto> activeObject 1] 2"
    and old: "tstate (selfTransitioner ?i1) = ''Active''"
    by (simp_all add: exInstance_def)
  have upd: "updateState (?i1\<lparr>selfTransitioner := ?moved\<rparr>) (Some (tstate (selfTransitioner ?i1)))
               [] [] exFactories (Some exFinish) [tyInputs] = (Inr (exDone, ?done), ?i2)"
    unfolding moved old by (rule ex)
  note t = cluster_invariant_after_update
    [where cls = exClass and core = exCore and created = "?i0" and sf = exFactories
       and self = "?i1" and m = exFinish and out = "Some ''complete''" and moved = "?moved"
       and a = "[]" and kw = "[]" and protos = "[tyInputs]" and u = "(exDone, ?done)"
       and self' = "?i2" and call = exCall]
  from t e0 have r0: "clusterInvariant (classStateFactories exClass) ?i0"
    by blast
  from t inv1 look upd have r2: "clusterInvariant exFactories ?i2"
    by blast
  show ?thesis
    by (intro conjI) (fact e0 r0 look inv1 ex r2)+
qed

end
